theory Spec2Isabelle
  imports Main "HOL-Library.Sublist" "HOL-Library.Code_Target_Numeral"
begin

chapter \<open>The embedding of the program\<close>

section \<open>C strings and the byte buffer\<close>

text \<open>
  A C string is modelled by the list of its characters before the terminating NUL; a
  byte buffer (\<open>buf_t\<close>) by the list of its live bytes, \<open>buf_head\<close> up to \<open>buf_tail\<close>.
  A pointer into a string or a buffer is an offset (a \<open>nat\<close>) from its start.
\<close>

abbreviation CR :: char where "CR \<equiv> CHR 0x0D"
abbreviation LF :: char where "LF \<equiv> CHR 0x0A"
abbreviation NUL :: char where "NUL \<equiv> CHR 0x00"

text \<open>The bytes a \<open>char *\<close> function sees of a buffer: those before the first NUL.\<close>

definition cstr :: "string \<Rightarrow> string" where
  "cstr bs = takeWhile (\<lambda>c. c \<noteq> NUL) bs"

text \<open>\<open>strstr(hay, needle)\<close>: offset of the first occurrence, \<open>None\<close> for a NULL result.\<close>

fun strstr :: "string \<Rightarrow> string \<Rightarrow> nat option" where
  "strstr [] nd = (if nd = [] then Some 0 else None)"
| "strstr (h # hs) nd =
     (if prefix nd (h # hs) then Some 0 else map_option Suc (strstr hs nd))"

text \<open>
  \<open>memchr(s, c, n)\<close>: offset of the first \<open>c\<close> among the first \<open>n\<close> bytes of \<open>s\<close>.
  Bytes beyond the modelled region are not looked at: they count as not matching.
\<close>

fun memchr :: "string \<Rightarrow> char \<Rightarrow> nat \<Rightarrow> nat option" where
  "memchr [] c n = None"
| "memchr (x # xs) c 0 = None"
| "memchr (x # xs) c (Suc n) =
     (if x = c then Some 0 else map_option Suc (memchr xs c n))"

text \<open>
  The byte at an offset. The string functions of the source are applied to buffers, so the
  byte at \<open>buf_tail\<close> is the terminating NUL; the end of a list stands for it.
\<close>

definition byte_at :: "string \<Rightarrow> nat \<Rightarrow> char" where
  "byte_at s i = (if i < length s then s ! i else NUL)"

text \<open>
  \<open>strncmp(a, b, n) == 0\<close>: the strings agree on their first \<open>n\<close> characters, or up to
  and including a common terminating NUL before that.
\<close>

fun strncmp_eq :: "string \<Rightarrow> string \<Rightarrow> nat \<Rightarrow> bool" where
  "strncmp_eq a b 0 = True"
| "strncmp_eq a b (Suc n) =
     (byte_at a 0 = byte_at b 0 \<and> (byte_at a 0 = NUL \<or> strncmp_eq (tl a) (tl b) n))"

section \<open>URL utilities of the HTTP codec (http.c)\<close>

text \<open>
  \<open>http_parse_page(url, page)\<close>. The function first looks at the last character of
  \<open>url\<close> and, when it is a slash, overwrites it with NUL in the caller's string; only
  then it skips the scheme and copies the page part. The result is \<open>None\<close> for the empty
  string (the source reads \<open>url[-1]\<close>, outside the string); otherwise it is the caller's
  string after the call, paired with the page written, where the page is \<open>None\<close> when the
  scheme skip lands beyond the end of the string (the length given to \<open>memchr\<close> then wraps
  around and the scan leaves the string).
\<close>

definition http_parse_page :: "string \<Rightarrow> (string \<times> string option) option" where
  "http_parse_page url =
     (if url = [] then None
      else
        let url_len = length url;
            endp = (if last url = CHR ''/'' then url_len - 1 else url_len);
            url' = take endp url;
            p = (if strncmp_eq ''http:'' url' 5 then 7
                 else if strncmp_eq ''https:'' url' 6 then 8 else 0)
        in if endp < p then Some (url', None)
           else (case memchr (drop p url') (CHR ''/'') (endp - p) of
                   None \<Rightarrow> Some (url', Some ''/'')
                 | Some q \<Rightarrow> Some (url', Some (drop (p + q) url'))))"

section \<open>The connection (connection.h)\<close>

text \<open>
  An endpoint is an IPv4 address with a port. A socket descriptor is modelled by its
  state: closed (\<open>-1\<close>), open but not connected, or connected to an endpoint.
\<close>

type_synonym endpoint = "string \<times> nat"

datatype sock_state = Closed | Unconnected | Connected endpoint

text \<open>
  \<open>connection_t\<close>. \<open>ssl\<close> is the TLS session (\<open>None\<close> for NULL), with the endpoint of the
  socket it was given by \<open>SSL_set_fd\<close>.
\<close>

record connection =
  host :: string
  page :: string
  full_url :: string
  primary_host :: string
  sock :: sock_state
  ssl :: "endpoint option"
  read_buf :: string
  write_buf :: string

section \<open>Request framing (http.c)\<close>

text \<open>
  Modelled from the spec: the macros \<open>HTTP_VERSION\<close> and \<open>HTTP_EOH_SENTINEL\<close> of
  http.h, which is not among the sources. The spec gives the request line as
  \<open>HTTP/1.1\<close> and the end-of-header sentinel as CR LF CR LF. The macros
  \<open>HTTP_USER_AGENT\<close> and \<open>HTTP_ACCEPT\<close> are missing too and have no value in the spec:
  they are parameters \<open>ua\<close> and \<open>accept\<close> of the model.
\<close>

definition HTTP_VERSION :: string where
  "HTTP_VERSION = ''1.1''"

definition HTTP_EOH_SENTINEL :: string where
  "HTTP_EOH_SENTINEL = [CR, LF, CR, LF]"

definition CRLF :: string where
  "CRLF = [CR, LF]"

text \<open>The \<open>sprintf\<close> of \<open>http_build_request_header\<close>, format string and arguments.\<close>

definition request_format :: "string \<Rightarrow> string \<Rightarrow> string \<Rightarrow> string \<Rightarrow> string \<Rightarrow> string" where
  "request_format ua accept http_verb target tbuf =
     http_verb @ '' '' @ target @ '' HTTP/'' @ HTTP_VERSION @ CRLF @
     ''User-Agent: '' @ ua @ CRLF @
     ''Accept: '' @ accept @ CRLF @
     ''Host: '' @ tbuf @ CRLF @
     ''Connection: keep-alive'' @ HTTP_EOH_SENTINEL"

text \<open>
  \<open>http_build_request_header(conn, http_verb, target)\<close>. The host is copied into a
  temporary buffer, one trailing slash is snipped, the request is formatted into the
  static \<open>header_buf[4096]\<close> and appended to the write buffer. \<open>None\<close> stands for the
  two places where the source leaves the bounds of its buffers: an empty host (the byte
  before the temporary buffer is read) and a request that does not fit \<open>header_buf\<close>
  with its terminating NUL.
\<close>

definition http_build_request_header ::
  "string \<Rightarrow> string \<Rightarrow> connection \<Rightarrow> string \<Rightarrow> string \<Rightarrow> connection option" where
  "http_build_request_header ua accept conn http_verb target =
     (if host conn = [] then None
      else
        let tbuf = (if last (host conn) = CHR ''/'' then butlast (host conn) else host conn);
            header_buf = request_format ua accept http_verb target tbuf
        in if 4096 \<le> length header_buf then None
           else Some (conn\<lparr>write_buf := write_buf conn @ header_buf\<rparr>))"


text \<open>The request text of the specification, for a host that has already lost its slash.\<close>

definition spec_request :: "string \<Rightarrow> string \<Rightarrow> string \<Rightarrow> string \<Rightarrow> string \<Rightarrow> string" where
  "spec_request ua accept verb target h =
     verb @ '' '' @ target @ '' HTTP/1.1'' @ [CR, LF] @
     ''User-Agent: '' @ ua @ [CR, LF] @
     ''Accept: '' @ accept @ [CR, LF] @
     ''Host: '' @ h @ [CR, LF] @
     ''Connection: keep-alive'' @ [CR, LF, CR, LF]"

definition strip_one_slash :: "string \<Rightarrow> string" where
  "strip_one_slash h = (if h \<noteq> [] \<and> last h = CHR ''/'' then butlast h else h)"

section \<open>Header lookup (http.c)\<close>

text \<open>
  \<open>http_header_t\<close>: name and value are C strings in storage of \<open>HTTP_HNAME_MAX + 1\<close> and
  \<open>HTTP_COOKIE_MAX + 1\<close> bytes (see \<open>wr_cache_http_cookie_ctor\<close>), with their lengths.
\<close>

record http_header =
  name :: string
  "value" :: string
  nlen :: nat
  vlen :: nat

text \<open>
  Modelled from the spec: the two capacity macros of http.h, which is not among the
  sources; the spec bounds a header name by 64 bytes and a value by 8 KiB.
\<close>

definition HTTP_HNAME_MAX :: nat where
  "HTTP_HNAME_MAX = 64"

definition HTTP_COOKIE_MAX :: nat where
  "HTTP_COOKIE_MAX = 8192"

text \<open>The exit \<open>out_clear_ret\<close>: both strings are zeroed, both lengths reset.\<close>

definition clear_header :: "http_header \<Rightarrow> http_header" where
  "clear_header hh = hh\<lparr>name := [], value := [], nlen := 0, vlen := 0\<rparr>"

text \<open>
  \<open>http_fetch_header(buf, name, hh, whence)\<close>. The result pairs "the returned pointer is
  not NULL" with the header entry after the call. \<open>None\<close> stands for a write beyond the
  storage of the entry, or a start offset beyond the buffer.
\<close>

definition http_fetch_header ::
  "string \<Rightarrow> string \<Rightarrow> http_header \<Rightarrow> nat \<Rightarrow> (bool \<times> http_header) option" where
  "http_fetch_header buf nm hh whence =
     (if length buf < whence then None
      else
        let check_from = drop whence buf; tail = length buf
        in case strstr (cstr check_from) nm of
             None \<Rightarrow> Some (False, hh)
           | Some i \<Rightarrow>
               let p = whence + i
               in (case strstr (cstr check_from) HTTP_EOH_SENTINEL of
                     None \<Rightarrow> Some (False, clear_header hh)
                   | Some hend \<Rightarrow>
                       (case memchr (drop p buf) (CHR '':'') (tail - p) of
                          None \<Rightarrow> Some (False, hh)
                        | Some j \<Rightarrow>
                            let q = p + j;
                                is_cookie = strncmp_eq ''Set-Cookie'' (drop p buf) (q - p)
                            in if \<not> is_cookie \<and> HTTP_HNAME_MAX < q - p then None
                               else
                                 let hh1 = (if is_cookie
                                            then hh\<lparr>name := ''Cookie'', nlen := length ''Cookie''\<rparr>
                                            else hh\<lparr>name := cstr (take (q - p) (drop p buf)),
                                                    nlen := q - p\<rparr>);
                                     p2 = (if byte_at buf (q + 1) \<noteq> CHR '' '' then q + 1 else q + 2)
                                 in (case memchr (drop p2 buf) CR (tail - p2) of
                                       None \<Rightarrow> Some (False, clear_header hh1)
                                     | Some k \<Rightarrow>
                                         if HTTP_COOKIE_MAX < k then None
                                         else Some (True,
                                                hh1\<lparr>value := cstr (take k (drop p2 buf)),
                                                    vlen := k\<rparr>)))))"

text \<open>
  The header value as the specification words it: from the first character after the
  colon that is not a space, up to the next CR. The argument is the text after the colon.
\<close>

definition spec_header_value :: "string \<Rightarrow> string" where
  "spec_header_value after_colon =
     takeWhile (\<lambda>c. c \<noteq> CR) (dropWhile (\<lambda>c. c = CHR '' '') after_colon)"

text \<open>What the source takes instead: one space after the colon is skipped, no more.\<close>

definition skip_one_space :: "string \<Rightarrow> string" where
  "skip_one_space w = (case w of [] \<Rightarrow> [] | c # cs \<Rightarrow> if c = CHR '' '' then cs else w)"

section \<open>Buffer operations and numeric parsing\<close>

text \<open>
  Modelled from the spec: \<open>buf_collapse\<close> of buffer.c, which is not among the sources.
  The spec: collapse(offset, count) removes \<open>count\<close> bytes at \<open>offset\<close> by left-shifting
  the suffix, and decreases the tail.
\<close>

definition buf_collapse :: "string \<Rightarrow> nat \<Rightarrow> nat \<Rightarrow> string" where
  "buf_collapse buf off n = take off buf @ drop (off + n) buf"

text \<open>The macro \<open>SKIP_CRNL\<close>: advance the offset over every CR and LF.\<close>

definition SKIP_CRNL :: "string \<Rightarrow> nat \<Rightarrow> nat" where
  "SKIP_CRNL buf p = p + length (takeWhile (\<lambda>c. c = LF \<or> c = CR) (drop p buf))"

text \<open>
  \<open>strtoul\<close> of the C library: white space, an optional sign, an optional \<open>0x\<close> (base
  16 or 0) or \<open>0\<close> (base 0) prefix, then the longest run of digits of the base.
  \<open>unsigned long\<close> has 64 bits: a value out of range is \<open>ULONG_MAX\<close>, a minus sign
  negates modulo \<open>2^64\<close>.
\<close>

definition isspace :: "char \<Rightarrow> bool" where
  "isspace c = (c \<in> {CHR '' '', CHR 0x09, CHR 0x0A, CHR 0x0B, CHR 0x0C, CHR 0x0D})"

definition digit_val :: "char \<Rightarrow> nat option" where
  "digit_val c =
     (let n = (of_char c :: nat)
      in if 48 \<le> n \<and> n \<le> 57 then Some (n - 48)
         else if 97 \<le> n \<and> n \<le> 122 then Some (n - 87)
         else if 65 \<le> n \<and> n \<le> 90 then Some (n - 55)
         else None)"

fun digits_val :: "nat \<Rightarrow> string \<Rightarrow> nat \<Rightarrow> nat" where
  "digits_val base [] acc = acc"
| "digits_val base (c # cs) acc =
     (case digit_val c of
        None \<Rightarrow> acc
      | Some d \<Rightarrow> if d < base then digits_val base cs (acc * base + d) else acc)"

definition ULONG_MAX :: nat where
  "ULONG_MAX = 2 ^ 64 - 1"

definition strtoul :: "string \<Rightarrow> nat \<Rightarrow> nat" where
  "strtoul s base =
     (let s1 = dropWhile isspace s;
          neg = (take 1 s1 = ''-'');
          s2 = (if take 1 s1 = ''-'' \<or> take 1 s1 = ''+'' then drop 1 s1 else s1);
          hex = (take 2 s2 = ''0x'' \<or> take 2 s2 = ''0X'');
          b = (if base = 0 then (if hex then 16 else if take 1 s2 = ''0'' then 8 else 10)
               else base);
          s3 = (if b = 16 \<and> hex then drop 2 s2 else s2);
          v = digits_val b s3 0
      in if ULONG_MAX < v then ULONG_MAX
         else if neg then (2 ^ 64 - v) mod 2 ^ 64 else v)"

text \<open>
  \<open>atoi\<close> is \<open>(int) strtol(s, NULL, 10)\<close>, as the C library of the platform has it.
  \<open>strtol\<close> returns a \<open>long\<close> of 64 bits and gives \<open>LONG_MAX\<close> or \<open>LONG_MIN\<close> for a
  value out of range; the conversion to \<open>int\<close> keeps the low 32 bits, read as a signed
  number. So the text \<open>4294967496\<close> (\<open>2^32 + 200\<close>) is read as 200.
\<close>

definition LONG_MAX :: int where
  "LONG_MAX = 2 ^ 63 - 1"

definition LONG_MIN :: int where
  "LONG_MIN = - (2 ^ 63)"

definition strtol10 :: "string \<Rightarrow> int" where
  "strtol10 s =
     (let s1 = dropWhile isspace s;
          neg = (take 1 s1 = ''-'');
          s2 = (if take 1 s1 = ''-'' \<or> take 1 s1 = ''+'' then drop 1 s1 else s1);
          v = int (digits_val 10 s2 0);
          sv = (if neg then - v else v)
      in if LONG_MAX < sv then LONG_MAX
         else if sv < LONG_MIN then LONG_MIN else sv)"

definition int_of_long :: "int \<Rightarrow> int" where
  "int_of_long x = (x + 2 ^ 31) mod 2 ^ 32 - 2 ^ 31"

definition atoi :: "string \<Rightarrow> int" where
  "atoi s = int_of_long (strtol10 s)"

section \<open>Reading from the connection\<close>

text \<open>
  Modelled from the spec: \<open>buf_read_socket\<close> and \<open>buf_read_tls\<close> of buffer.c, which is not
  among the sources. A call appends to the buffer what the connection delivers, at most
  \<open>toread\<close> bytes, and returns their number, or \<open>-1\<close> on a read error.

  What the connection delivers is a script, one entry for each read the peer answers: an
  error, or some bytes (none for a read that returns 0). Bytes that do not fit the
  request stay pending. A request of 0 bytes takes the whole entry (the fallback branch
  of \<open>http_recv_response\<close> asks for 0 bytes and waits for data). When the script has run
  out the call does not return: the result is \<open>None\<close>. Socket and TLS reads take from
  the same script.
\<close>

datatype rd = RdErr | RdData string

type_synonym wire = "rd list"

fun rd_size :: "rd \<Rightarrow> nat" where
  "rd_size RdErr = 1"
| "rd_size (RdData bs) = Suc (length bs)"

definition wire_size :: "wire \<Rightarrow> nat" where
  "wire_size w = sum_list (map rd_size w)"

fun buf_read :: "wire \<Rightarrow> string \<Rightarrow> nat \<Rightarrow> (int \<times> wire \<times> string) option" where
  "buf_read [] buf toread = None"
| "buf_read (RdErr # w) buf toread = Some (- 1, w, buf)"
| "buf_read (RdData bs # w) buf toread =
     (if toread = 0 \<or> length bs \<le> toread then Some (int (length bs), w, buf @ bs)
      else Some (int toread, RdData (drop toread bs) # w, buf @ take toread bs))"

section \<open>Response reception (http.c)\<close>

text \<open>
  \<open>__http_read_until_eoh\<close>: read blocks of \<open>HTTP_SMALL_READ_BLOCK\<close> bytes until the
  sentinel is in the buffer. The result is the offset of the sentinel, \<open>None\<close> for NULL.
\<close>

definition HTTP_SMALL_READ_BLOCK :: nat where
  "HTTP_SMALL_READ_BLOCK = 256"

function http_read_until_eoh :: "wire \<Rightarrow> string \<Rightarrow> (nat option \<times> wire \<times> string) option" where
  "http_read_until_eoh w buf =
     (case buf_read w buf HTTP_SMALL_READ_BLOCK of
        None \<Rightarrow> None
      | Some (n, w', buf') \<Rightarrow>
          if n = 0 then http_read_until_eoh w' buf'
          else if n < 0 then Some (None, w', buf')
          else (case strstr (cstr buf') HTTP_EOH_SENTINEL of
                  None \<Rightarrow> http_read_until_eoh w' buf'
                | Some p \<Rightarrow> Some (Some p, w', buf')))"
  by pat_completeness auto
termination
  by (relation "measure (\<lambda>(w, buf). wire_size w)")
     (auto simp: wire_size_def split: if_splits elim!: buf_read.elims)

definition HTTP_MAX_CHUNK_STR :: nat where
  "HTTP_MAX_CHUNK_STR = 20"

text \<open>The first inner loop of \<open>__http_do_chunked_recv\<close>: read until the chunk is complete.\<close>

function chunk_read_rest :: "wire \<Rightarrow> string \<Rightarrow> nat \<Rightarrow> nat \<Rightarrow> (int \<times> wire \<times> string) option" where
  "chunk_read_rest w buf chunk_size tot =
     (if chunk_size \<le> tot then Some (0, w, buf)
      else (case buf_read w buf chunk_size of
              None \<Rightarrow> None
            | Some (bytes_read, w', buf') \<Rightarrow>
                if bytes_read < 0 then Some (- 1, w', buf')
                else if bytes_read = 0 then chunk_read_rest w' buf' chunk_size tot
                else chunk_read_rest w' buf' chunk_size (tot + nat bytes_read)))"
  by pat_completeness auto
termination
  by (relation "measure (\<lambda>(w, buf, c, t). wire_size w)")
     (auto simp: wire_size_def split: if_splits elim!: buf_read.elims)

text \<open>The second inner loop: read some extra data to get the next chunk size.\<close>

function chunk_read_extra :: "wire \<Rightarrow> string \<Rightarrow> (int \<times> wire \<times> string) option" where
  "chunk_read_extra w buf =
     (case buf_read w buf HTTP_MAX_CHUNK_STR of
        None \<Rightarrow> None
      | Some (bytes_read, w', buf') \<Rightarrow>
          if bytes_read < 0 then Some (- 1, w', buf')
          else if bytes_read = 0 then chunk_read_extra w' buf'
          else Some (0, w', buf'))"
  by pat_completeness auto
termination
  by (relation "measure (\<lambda>(w, buf). wire_size w)")
     (auto simp: wire_size_def split: if_splits elim!: buf_read.elims)
text \<open>
  The step that follows a chunk in \<open>__http_do_chunked_recv\<close>: with \<open>t\<close> just behind the
  chunk, skip CR and LF and collapse what was skipped.
\<close>

definition collapse_crnl :: "string \<Rightarrow> nat \<Rightarrow> string" where
  "collapse_crnl buf t =
     (let p = SKIP_CRNL buf t
      in if p - t \<noteq> 0 then buf_collapse buf t (p - t) else buf)"

text \<open>
  The outer loop of \<open>__http_do_chunked_recv\<close>, entered with \<open>p\<close> at the first chunk-size
  line. The result is the return value with the script and the buffer left behind.
\<close>

function chunk_loop :: "wire \<Rightarrow> string \<Rightarrow> nat \<Rightarrow> (int \<times> wire \<times> string) option" where
  "chunk_loop w buf p =
     (case memchr (drop p buf) CR HTTP_MAX_CHUNK_STR of
        None \<Rightarrow> Some (- 1, w, buf)
      | Some i \<Rightarrow>
          let e = p + i;
              tmp = cstr (take (e - p) (drop p buf));
              chunk_size = strtoul tmp 16
          in if chunk_size = 0
             then Some (0, w, buf_collapse buf (p - 1) (length buf - (p - 1)))
             else
               let save_size = chunk_size;
                   buf1 = buf_collapse buf p (SKIP_CRNL buf e - p);
                   overread = length buf1 - p
               in if chunk_size \<le> overread
                  then chunk_loop w (collapse_crnl buf1 (p + save_size)) (p + save_size)
                  else (case chunk_read_rest w buf1 (chunk_size - overread) 0 of
                          None \<Rightarrow> None
                        | Some (r1, w1, buf2) \<Rightarrow>
                            if r1 < 0 then Some (- 1, w1, buf2)
                            else (case chunk_read_extra w1 buf2 of
                                    None \<Rightarrow> None
                                  | Some (r2, w2, buf3) \<Rightarrow>
                                      if r2 < 0 then Some (- 1, w2, buf3)
                                      else chunk_loop w2 (collapse_crnl buf3 (p + save_size))
                                             (p + save_size))))"
  by pat_completeness auto
termination
proof (relation "measures [\<lambda>(w, buf, p). wire_size w, \<lambda>(w, buf, p). length buf - p]",
    goal_cases)
  case 1
  show ?case by simp
next
  case (2 w buf p i e tmp chunk_size save_size buf1 overread)
  have mem: "\<And>s c n j. memchr s c n = Some j \<Longrightarrow> j < length s \<and> s ! j = c"
  proof -
    fix s c n j show "memchr s c n = Some j \<Longrightarrow> j < length s \<and> s ! j = c"
      by (induction s c n arbitrary: j rule: memchr.induct) (auto split: if_splits)
  qed
  from 2 have i: "i < length (drop p buf)" "drop p buf ! i = CR"
    using mem by blast+
  then have pi: "p + i < length buf" "buf ! (p + i) = CR" by auto
  then have "takeWhile (\<lambda>c. c = LF \<or> c = CR) (drop (p + i) buf) \<noteq> []"
    by (cases "drop (p + i) buf") (auto simp: hd_drop_conv_nth dest: arg_cong [where f = hd])
  then have lo: "p + i < SKIP_CRNL buf (p + i)"
    by (simp add: SKIP_CRNL_def)
  have hi: "SKIP_CRNL buf (p + i) \<le> length buf"
    using pi(1) length_takeWhile_le [of "\<lambda>c. c = LF \<or> c = CR" "drop (p + i) buf"]
    by (simp add: SKIP_CRNL_def)
  have l1: "length buf1 - p < length buf - p"
    using 2 lo hi pi(1) by (simp add: buf_collapse_def min_def)
  have "\<And>b t n. length (buf_collapse b t n) \<le> length b"
    by (auto simp: buf_collapse_def min_def)
  then have a: "length (collapse_crnl buf1 (p + save_size)) \<le> length buf1"
    by (simp add: collapse_crnl_def Let_def)
  have c: "0 < save_size" "save_size \<le> length buf1 - p"
    using 2 by auto
  from l1 a c
  have "length (collapse_crnl buf1 (p + save_size)) - (p + save_size) < length buf - p"
    by linarith
  then show ?case by simp
next
  case (3 w buf p i e tmp chunk_size save_size buf1 overread x2 r1 y w1 buf2 x2a r2 ya w2 buf3)
  have rd: "\<And>w buf n k w' buf'. buf_read w buf n = Some (k, w', buf') \<Longrightarrow> wire_size w' < wire_size w"
  proof -
    fix w buf n k w' buf'
    show "buf_read w buf n = Some (k, w', buf') \<Longrightarrow> wire_size w' < wire_size w"
      by (induction w buf n rule: buf_read.induct) (auto simp: wire_size_def split: if_splits)
  qed
  have rest: "\<And>w buf c t r w' buf'. chunk_read_rest w buf c t = Some (r, w', buf') \<Longrightarrow>
      wire_size w' \<le> wire_size w"
  proof -
    fix w buf c t r w' buf'
    show "chunk_read_rest w buf c t = Some (r, w', buf') \<Longrightarrow> wire_size w' \<le> wire_size w"
    proof (induction w buf c t rule: chunk_read_rest.induct)
      case (1 w buf chunk_size tot)
      show ?case
      proof (cases "chunk_size \<le> tot")
        case True
        with "1.prems" show ?thesis by simp
      next
        case False
        then obtain k w1 b1 where br: "buf_read w buf chunk_size = Some (k, w1, b1)"
          using "1.prems" by (auto split: option.splits)
        from rd [OF br] have lt: "wire_size w1 < wire_size w" .
        show ?thesis
          using "1.prems" False br lt "1.IH"(1) [OF False br refl refl]
            "1.IH"(2) [OF False br refl refl]
          by (auto split: if_splits)
      qed
    qed
  qed
  have extra: "\<And>w buf r w' buf'. chunk_read_extra w buf = Some (r, w', buf') \<Longrightarrow>
      wire_size w' < wire_size w"
  proof -
    fix w buf r w' buf'
    show "chunk_read_extra w buf = Some (r, w', buf') \<Longrightarrow> wire_size w' < wire_size w"
    proof (induction w buf rule: chunk_read_extra.induct)
      case (1 w buf)
      then obtain k w1 b1 where br: "buf_read w buf HTTP_MAX_CHUNK_STR = Some (k, w1, b1)"
        by (auto split: option.splits)
      from rd [OF br] have lt: "wire_size w1 < wire_size w" .
      show ?case
        using "1.prems" br lt "1.IH" [OF br refl refl]
        by (auto split: if_splits)
    qed
  qed
  from 3 have "chunk_read_rest w buf1 (chunk_size - overread) 0 = Some (r1, w1, buf2)"
    and "chunk_read_extra w1 buf2 = Some (r2, w2, buf3)" by auto
  from rest [OF this(1)] extra [OF this(2)] show ?case by simp
qed
text \<open>
  \<open>__http_do_chunked_recv\<close>: find the sentinel, drop CR and LF behind it, run the loop.
\<close>

definition http_do_chunked_recv :: "wire \<Rightarrow> string \<Rightarrow> (int \<times> wire \<times> string) option" where
  "http_do_chunked_recv w buf =
     (case strstr (cstr buf) HTTP_EOH_SENTINEL of
        None \<Rightarrow> Some (- 1, w, buf)
      | Some p0 \<Rightarrow>
          let t = p0 + length HTTP_EOH_SENTINEL
          in chunk_loop w (collapse_crnl buf t) t)"

text \<open>The loop of the \<open>Content-Length\<close> branch of \<open>http_recv_response\<close>.\<close>

function read_content :: "wire \<Rightarrow> string \<Rightarrow> nat \<Rightarrow> (int \<times> wire \<times> string) option" where
  "read_content w buf clen =
     (if clen = 0 then Some (0, w, buf)
      else (case buf_read w buf clen of
              None \<Rightarrow> None
            | Some (bytes, w', buf') \<Rightarrow>
                if bytes < 0 then Some (- 1, w', buf')
                else if bytes = 0 then read_content w' buf' clen
                else read_content w' buf' (clen - nat bytes)))"
  by pat_completeness auto
termination
  by (relation "measure (\<lambda>(w, buf, c). wire_size w)")
     (auto simp: wire_size_def split: if_splits elim!: buf_read.elims)

text \<open>The loop at \<open>read_again\<close>, for a response with neither header.\<close>

function read_until_body :: "wire \<Rightarrow> string \<Rightarrow> (int \<times> wire \<times> string) option" where
  "read_until_body w buf =
     (case buf_read w buf 0 of
        None \<Rightarrow> None
      | Some (bytes, w', buf') \<Rightarrow>
          if bytes < 0 then Some (- 1, w', buf')
          else (case strstr (cstr buf') ''</body'' of
                  None \<Rightarrow> read_until_body w' buf'
                | Some p \<Rightarrow> Some (0, w', buf')))"
  by pat_completeness auto
termination
  by (relation "measure (\<lambda>(w, buf). wire_size w)")
     (auto simp: wire_size_def split: if_splits elim!: buf_read.elims)

text \<open>A header entry as the header cache hands it out: zeroed by its destructor.\<close>

definition fresh_header :: http_header where
  "fresh_header = \<lparr>name = [], value = [], nlen = 0, vlen = 0\<rparr>"

text \<open>
  \<open>http_recv_response\<close>, on the script of the connection and its read buffer.
  \<open>hcache_ok\<close> says that the header cache hands out the two entries. The result is the
  return value (\<open>0\<close> or \<open>-1\<close>) with the script and the read buffer left behind; \<open>None\<close>
  when the call has not returned within the script, or has written beyond a header entry.
\<close>

definition http_recv_response :: "bool \<Rightarrow> wire \<Rightarrow> string \<Rightarrow> (int \<times> wire \<times> string) option" where
  "http_recv_response hcache_ok w buf =
     (if \<not> hcache_ok then Some (- 1, w, buf)
      else
        case http_read_until_eoh w buf of
          None \<Rightarrow> None
        | Some (None, w1, buf1) \<Rightarrow> Some (- 1, w1, buf1)
        | Some (Some p0, w1, buf1) \<Rightarrow>
            let p = p0 + length HTTP_EOH_SENTINEL
            in (case http_fetch_header buf1 ''Transfer-Encoding'' fresh_header 0 of
                  None \<Rightarrow> None
                | Some (True, transfer_enc) \<Rightarrow>
                    if strncmp_eq ''chunked'' (value transfer_enc) (vlen transfer_enc)
                    then (case http_do_chunked_recv w1 buf1 of
                            None \<Rightarrow> None
                          | Some (r, w2, buf2) \<Rightarrow>
                              if r = - 1 then Some (- 1, w2, buf2) else Some (0, w2, buf2))
                    else Some (0, w1, buf1)
                | Some (False, transfer_enc) \<Rightarrow>
                    (case http_fetch_header buf1 ''Content-Length'' fresh_header 0 of
                       None \<Rightarrow> None
                     | Some (True, content_len) \<Rightarrow>
                         let clen = strtoul (value content_len) 0;
                             overread = length buf1 - p
                         in if overread < clen then read_content w1 buf1 (clen - overread)
                            else Some (0, w1, buf1)
                     | Some (False, content_len) \<Rightarrow> read_until_body w1 buf1)))"

text \<open>
  \<open>http_status_code_int\<close>: the integer between the first and the second space. The
  buffer is taken to pass \<open>buf_integrity\<close>. \<open>None\<close> stands for a status text that does not
  fit the static \<open>code_str[16]\<close> with its terminating NUL.
\<close>

definition http_status_code_int :: "string \<Rightarrow> int option" where
  "http_status_code_int buf =
     (case memchr buf (CHR '' '') (length buf) of
        None \<Rightarrow> Some (- 1)
      | Some i \<Rightarrow>
          let p = i + 1
          in (case memchr (drop p buf) (CHR '' '') (length buf - p) of
                None \<Rightarrow> Some (- 1)
              | Some j \<Rightarrow>
                  if 16 \<le> j then None
                  else Some (atoi (cstr (take j (drop p buf))))))"

text \<open>
  The body of a chunked response as the specification describes it: the chunk payloads,
  concatenated in order.
\<close>

definition spec_chunked_body :: "string list \<Rightarrow> string" where
  "spec_chunked_body payloads = concat payloads"

section \<open>Opening and closing connections (connection.c)\<close>

text \<open>
  The network as the connection functions see it: \<open>resolve\<close> is \<open>getaddrinfo\<close> followed
  by the search for the first \<open>AF_INET\<close>/\<open>SOCK_STREAM\<close> candidate (\<open>None\<close> when either
  fails), \<open>sock_avail\<close> says that \<open>socket\<close> returns a descriptor, \<open>reachable\<close> that
  \<open>connect\<close> to an endpoint succeeds.
\<close>

record net =
  resolve :: "string \<Rightarrow> string option"
  sock_avail :: bool
  reachable :: "endpoint \<Rightarrow> bool"

text \<open>
  What is global to the process: the option \<open>OPT_USE_TLS\<close>, the \<open>pthread_once\<close> control
  \<open>__ossl_init_once\<close> of http_conn.c (has it fired), and the number of times
  \<open>__init_openssl\<close>, that is \<open>SSL_library_init\<close> and its companions, has run.
\<close>

record proc =
  OPT_USE_TLS :: bool
  ossl_init_once :: bool
  ssl_inits :: nat

text \<open>
  Modelled from the spec: the port macros of the headers, which are not among the
  sources; the spec gives port 80 for HTTP and 443 for TLS.
\<close>

definition HTTP_PORT :: nat where
  "HTTP_PORT = 80"

definition HTTPS_PORT :: nat where
  "HTTPS_PORT = 443"

definition init_openssl :: "proc \<Rightarrow> proc" where
  "init_openssl pr = pr\<lparr>ssl_inits := Suc (ssl_inits pr)\<rparr>"

text \<open>
  The lines that the four connect functions of connection.c and http_conn.c share word
  for word: resolve \<open>nm\<close>, pick the port, open a socket and connect it. The result is
  the return value so far, the address resolved, and the descriptor: \<open>cur\<close>, the one
  before the call, when the resolution fails; closed when \<open>socket\<close> fails; open and not
  connected when \<open>connect\<close> fails.
\<close>

definition dial :: "net \<Rightarrow> bool \<Rightarrow> string \<Rightarrow> sock_state \<Rightarrow> int \<times> string option \<times> sock_state" where
  "dial nw tls nm cur =
     (case resolve nw nm of
        None \<Rightarrow> (- 1, None, cur)
      | Some ip \<Rightarrow>
          let port = (if tls then HTTPS_PORT else HTTP_PORT)
          in if \<not> sock_avail nw then (- 1, Some ip, Closed)
             else if \<not> reachable nw (ip, port) then (- 1, Some ip, Unconnected)
             else (0, Some ip, Connected (ip, port)))"

text \<open>\<open>SSL_new\<close> and \<open>SSL_set_fd\<close>: the session on the socket just connected.\<close>

definition tls_session :: "sock_state \<Rightarrow> endpoint option" where
  "tls_session s = (case s of Connected ep \<Rightarrow> Some ep | _ \<Rightarrow> None)"

text \<open>
  \<open>open_connection\<close>: both buffers are initialised, \<open>host\<close> is resolved and dialled, and
  with \<open>OPT_USE_TLS\<close> set \<open>__init_openssl\<close> is called and a session made.
\<close>

definition open_connection :: "net \<Rightarrow> proc \<Rightarrow> connection \<Rightarrow> int \<times> proc \<times> connection" where
  "open_connection nw pr conn =
     (let c1 = conn\<lparr>read_buf := [], write_buf := []\<rparr>
      in case dial nw (OPT_USE_TLS pr) (host conn) (sock conn) of
           (rv, ip, s) \<Rightarrow>
             if rv < 0 then (- 1, pr, c1\<lparr>sock := s\<rparr>)
             else if OPT_USE_TLS pr
             then (0, init_openssl pr, c1\<lparr>sock := s, ssl := tls_session s\<rparr>)
             else (0, pr, c1\<lparr>sock := s\<rparr>))"

definition close_connection :: "proc \<Rightarrow> connection \<Rightarrow> connection" where
  "close_connection pr conn =
     (let c1 = conn\<lparr>sock := Closed\<rparr>;
          c2 = (if OPT_USE_TLS pr then c1\<lparr>ssl := None\<rparr> else c1)
      in c2\<lparr>read_buf := [], write_buf := []\<rparr>)"

text \<open>
  \<open>reconnect\<close> of connection.c: close the socket, copy \<open>primary_host\<close> over \<open>host\<close>, free
  the TLS session, then resolve \<open>primary_host\<close> and dial it. \<open>__init_openssl\<close> is not
  called here.
\<close>

definition reconnect :: "net \<Rightarrow> proc \<Rightarrow> connection \<Rightarrow> int \<times> connection" where
  "reconnect nw pr conn =
     (let c1 = conn\<lparr>sock := Closed, host := primary_host conn\<rparr>;
          c2 = (if OPT_USE_TLS pr then c1\<lparr>ssl := None\<rparr> else c1)
      in case dial nw (OPT_USE_TLS pr) (primary_host c2) (sock c2) of
           (rv, ip, s) \<Rightarrow>
             if rv < 0 then (- 1, c2\<lparr>sock := s\<rparr>)
             else if OPT_USE_TLS pr then (0, c2\<lparr>sock := s, ssl := tls_session s\<rparr>)
             else (0, c2\<lparr>sock := s\<rparr>))"

definition conn_switch_to_tls :: "net \<Rightarrow> proc \<Rightarrow> connection \<Rightarrow> int \<times> proc \<times> connection" where
  "conn_switch_to_tls nw pr conn =
     open_connection nw (pr\<lparr>OPT_USE_TLS := True\<rparr>) (close_connection pr conn)"

section \<open>Opening and closing connections (http_conn.c)\<close>

text \<open>
  \<open>struct http_t\<close>, the HTTP object of the crawl engine, with the fields the sources
  use: the four strings, \<open>usingSecure\<close>, and of its member \<open>conn\<close> the socket
  (\<open>http_socket\<close>), the TLS session (\<open>http_tls\<close>), the resolved address and the two
  buffers (\<open>http_rbuf\<close>, \<open>http_wbuf\<close>).
\<close>

record http_t =
  http_host :: string
  http_page :: string
  http_full_url :: string
  http_primary_host :: string
  usingSecure :: bool
  http_socket :: sock_state
  http_tls :: "endpoint option"
  host_ipv4 :: string
  http_rbuf :: string
  http_wbuf :: string

text \<open>\<open>pthread_once(&__ossl_init_once, __init_openssl)\<close>.\<close>

definition pthread_once_init_openssl :: "proc \<Rightarrow> proc" where
  "pthread_once_init_openssl pr =
     (if ossl_init_once pr then pr else init_openssl (pr\<lparr>ossl_init_once := True\<rparr>))"

text \<open>The address is stored (\<open>sprintf\<close> into \<open>host_ipv4\<close>) as soon as it is resolved.\<close>

definition store_ipv4 :: "string option \<Rightarrow> http_t \<Rightarrow> http_t" where
  "store_ipv4 ip h = (case ip of None \<Rightarrow> h | Some a \<Rightarrow> h\<lparr>host_ipv4 := a\<rparr>)"

definition http_connect :: "net \<Rightarrow> proc \<Rightarrow> http_t \<Rightarrow> int \<times> proc \<times> http_t" where
  "http_connect nw pr h =
     (case dial nw (usingSecure h) (http_host h) (http_socket h) of
        (rv, ip, s) \<Rightarrow>
          let h1 = store_ipv4 ip h
          in if rv < 0 then (- 1, pr, h1\<lparr>http_socket := s\<rparr>)
             else if usingSecure h
             then (0, pthread_once_init_openssl pr,
                   h1\<lparr>http_socket := s, http_tls := tls_session s\<rparr>)
             else (0, pr, h1\<lparr>http_socket := s\<rparr>))"

definition http_disconnect :: "http_t \<Rightarrow> http_t" where
  "http_disconnect h =
     (let h1 = h\<lparr>http_socket := Closed\<rparr>
      in if usingSecure h then h1\<lparr>http_tls := None\<rparr> else h1)"

text \<open>
  \<open>http_reconnect\<close>: close the socket, free the TLS session, then resolve \<open>http->host\<close>,
  the current host, and dial it. Neither host field is written.
\<close>

definition http_reconnect :: "net \<Rightarrow> http_t \<Rightarrow> int \<times> http_t" where
  "http_reconnect nw h =
     (let h1 = h\<lparr>http_socket := Closed\<rparr>;
          h2 = (if usingSecure h then h1\<lparr>http_tls := None\<rparr> else h1)
      in case dial nw (usingSecure h2) (http_host h2) (http_socket h2) of
           (rv, ip, s) \<Rightarrow>
             let h3 = store_ipv4 ip h2
             in if rv < 0 then (- 1, h3\<lparr>http_socket := s\<rparr>)
                else if usingSecure h
                then (0, h3\<lparr>http_socket := s, http_tls := tls_session s\<rparr>)
                else (0, h3\<lparr>http_socket := s\<rparr>))"

definition HTTP_upgrade_to_TLS :: "net \<Rightarrow> proc \<Rightarrow> http_t \<Rightarrow> int \<times> proc \<times> http_t" where
  "HTTP_upgrade_to_TLS nw pr h =
     http_connect nw pr ((http_disconnect h)\<lparr>usingSecure := True\<rparr>)"

text \<open>
  Sequences of calls on one connection in one process, for each of the two files. A
  caller may also set or clear the TLS option between calls, as the command line does
  before the first.
\<close>

datatype conn_op = Op_open | Op_close | Op_reconnect | Op_switch_to_tls

fun conn_step :: "net \<Rightarrow> conn_op \<Rightarrow> proc \<times> connection \<Rightarrow> proc \<times> connection" where
  "conn_step nw Op_open (pr, c) = snd (open_connection nw pr c)"
| "conn_step nw Op_close (pr, c) = (pr, close_connection pr c)"
| "conn_step nw Op_reconnect (pr, c) = (pr, snd (reconnect nw pr c))"
| "conn_step nw Op_switch_to_tls (pr, c) = snd (conn_switch_to_tls nw pr c)"

definition conn_run :: "net \<Rightarrow> conn_op list \<Rightarrow> proc \<times> connection \<Rightarrow> proc \<times> connection" where
  "conn_run nw ops st = fold (conn_step nw) ops st"

datatype http_op = Op_connect | Op_disconnect | Op_http_reconnect | Op_upgrade

fun http_step :: "net \<Rightarrow> http_op \<Rightarrow> proc \<times> http_t \<Rightarrow> proc \<times> http_t" where
  "http_step nw Op_connect (pr, h) = snd (http_connect nw pr h)"
| "http_step nw Op_disconnect (pr, h) = (pr, http_disconnect h)"
| "http_step nw Op_http_reconnect (pr, h) = (pr, snd (http_reconnect nw h))"
| "http_step nw Op_upgrade (pr, h) = snd (HTTP_upgrade_to_TLS nw pr h)"

definition http_run :: "net \<Rightarrow> http_op list \<Rightarrow> proc \<times> http_t \<Rightarrow> proc \<times> http_t" where
  "http_run nw ops st = fold (http_step nw) ops st"

text \<open>
  A small network for concrete runs: two hosts that resolve to different addresses, every
  socket call succeeds.
\<close>

definition example_net :: net where
  "example_net =
     \<lparr>resolve = (\<lambda>nm. if nm = ''a.test'' then Some ''10.0.0.1''
                       else if nm = ''b.test'' then Some ''10.0.0.2'' else None),
      sock_avail = True,
      reachable = (\<lambda>ep. True)\<rparr>"

text \<open>
  A crawl of \<open>a.test\<close> whose connection currently talks to \<open>b.test\<close>, for each of the
  two connection types.
\<close>

definition example_http :: http_t where
  "example_http =
     \<lparr>http_host = ''b.test'', http_page = ''/x'', http_full_url = ''http://b.test/x'',
      http_primary_host = ''a.test'', usingSecure = False,
      http_socket = Connected (''10.0.0.2'', 80), http_tls = None,
      host_ipv4 = ''10.0.0.2'', http_rbuf = [], http_wbuf = []\<rparr>"

definition example_conn :: connection where
  "example_conn =
     \<lparr>host = ''b.test'', page = ''/x'', full_url = ''http://b.test/x'',
      primary_host = ''a.test'', sock = Connected (''10.0.0.2'', 80), ssl = None,
      read_buf = [], write_buf = []\<rparr>"

definition example_proc :: proc where
  "example_proc = \<lparr>OPT_USE_TLS = False, ossl_init_once = False, ssl_inits = 0\<rparr>"

section \<open>Host of a URL (http.c) and the cross-domain test\<close>

text \<open>
  \<open>http_parse_host(url, host)\<close>: skip the scheme, copy up to the next slash. \<open>None\<close>
  when the scheme skip lands beyond the end of the string (a URL such as \<open>http:\<close>), where
  the length given to \<open>memchr\<close> wraps around.
\<close>

definition http_parse_host :: "string \<Rightarrow> string option" where
  "http_parse_host url =
     (let url_len = length url;
          p = (if strncmp_eq ''http:'' url (length ''http:'') then length ''http://''
               else if strncmp_eq ''https:'' url (length ''https:'') then length ''https://''
               else 0)
      in if url_len < p then None
         else (case memchr (drop p url) (CHR ''/'') (url_len - p) of
                 None \<Rightarrow> Some (drop p url)
               | Some i \<Rightarrow> Some (take i (drop p url))))"

text \<open>
  Modelled from the spec: \<open>is_xdomain\<close> of utils_url.c, which is not among the sources.
  The spec: true iff \<open>parse_host(url)\<close> differs from the primary host of the connection.
\<close>

definition is_xdomain :: "http_t \<Rightarrow> string \<Rightarrow> bool option" where
  "is_xdomain http url = map_option (\<lambda>h. h \<noteq> http_primary_host http) (http_parse_host url)"

section \<open>The URL caches and the acceptance of a URL (webreaper.c)\<close>

text \<open>
  \<open>http_link_t\<close> nodes with their \<open>left\<close> and \<open>right\<close> links, as a tree: \<open>Null\<close> is the
  NULL pointer. The parent link and the request counter play no part in a search.
\<close>

datatype http_link = Null | Link http_link string http_link

fun urls :: "http_link \<Rightarrow> string set" where
  "urls Null = {}"
| "urls (Link l u r) = urls l \<union> {u} \<union> urls r"

datatype cache_state = FILLING | DRAINING

text \<open>\<open>struct cache_ctx\<close>: is there a cache (the pointer is not NULL), the root, the role.\<close>

record cache_ctx =
  cache :: bool
  root :: http_link
  state :: cache_state

text \<open>\<open>strcmp\<close>: negative, zero or positive, comparing bytes as unsigned.\<close>

fun strcmp :: "string \<Rightarrow> string \<Rightarrow> int" where
  "strcmp [] [] = 0"
| "strcmp [] (y # ys) = - 1"
| "strcmp (x # xs) [] = 1"
| "strcmp (x # xs) (y # ys) =
     (if x = y then strcmp xs ys
      else if (of_char x :: nat) < of_char y then - 1 else 1)"

definition disallowed_tokens :: "string list" where
  "disallowed_tokens = [''javascript:'', ''data:image'', ''.exe'', ''.dll'', ''cgi-'']"

text \<open>
  Modelled from the spec: the globals \<open>httplen\<close> and \<open>httpslen\<close>, defined outside the
  sources; the spec names them as the lengths of the prefixes \<open>http://\<close> and \<open>https://\<close>.
\<close>

definition httplen :: nat where
  "httplen = length ''http://''"

definition httpslen :: nat where
  "httpslen = length ''https://''"

text \<open>
  The search of the draining cache in \<open>__url_acceptable\<close>: walk down from the root by
  \<open>strcmp\<close>; a node with the same non-empty URL is a twin.
\<close>

fun draining_twin :: "string \<Rightarrow> http_link \<Rightarrow> bool" where
  "draining_twin url Null = False"
| "draining_twin url (Link l u r) =
     (let cmp = strcmp url u
      in if url \<noteq> [] \<and> u \<noteq> [] \<and> cmp = 0 then True
         else if cmp < 0 then draining_twin url l
         else draining_twin url r)"

text \<open>
  \<open>__url_acceptable(http, fctx, dctx, url)\<close>. The URL is a buffer: \<open>data_len\<close> is its
  length, and the string functions see it up to its first NUL. \<open>archived\<close> is
  \<open>local_archive_exists\<close> (utils_url.c, not among the sources; it asks the file system),
  \<open>allow_xdomain\<close> the option \<open>OPT_ALLOW_XDOMAIN\<close>. The result is \<open>Some True\<close> for 1 and
  \<open>Some False\<close> for 0, \<open>None\<close> when \<open>http_parse_host\<close> has none.
\<close>

definition url_acceptable ::
  "(string \<Rightarrow> bool) \<Rightarrow> bool \<Rightarrow> http_t \<Rightarrow> cache_ctx \<Rightarrow> cache_ctx \<Rightarrow> string \<Rightarrow> bool option" where
  "url_acceptable archived allow_xdomain http fctx dctx url =
     (if 256 \<le> length url then Some False
      else if (strncmp_eq ''http:'' (cstr url) 5 \<or> strncmp_eq ''https:'' (cstr url) 6)
              \<and> (length url < httplen \<or> length url < httpslen) then Some False
      else if archived (cstr url) then Some False
      else if memchr url (CHR ''#'') (length url) \<noteq> None then Some False
      else if list_ex (\<lambda>t. strstr (cstr url) t \<noteq> None) disallowed_tokens then Some False
      else (case is_xdomain http (cstr url) of
              None \<Rightarrow> None
            | Some x \<Rightarrow>
                if x \<and> \<not> allow_xdomain then Some False
                else if cache dctx \<and> draining_twin (cstr url) (root dctx) then Some False
                else Some True))"

text \<open>
  The order of an index (invariant I1 of the specification): at every node the URLs of
  the left subtree are smaller and those of the right subtree greater, by \<open>strcmp\<close>.
\<close>

fun ordered :: "http_link \<Rightarrow> bool" where
  "ordered Null = True"
| "ordered (Link l u r) =
     (ordered l \<and> ordered r \<and> (\<forall>x \<in> urls l. strcmp x u < 0) \<and> (\<forall>x \<in> urls r. 0 < strcmp x u))"

text \<open>A draining cache with three URLs, and an HTTP object on its primary host.\<close>

definition example_dctx :: cache_ctx where
  "example_dctx =
     \<lparr>cache = True,
      root = Link (Link Null ''http://a.test/a'' Null) ''http://a.test/b''
               (Link Null ''http://a.test/c'' Null),
      state = DRAINING\<rparr>"

definition example_fctx :: cache_ctx where
  "example_fctx = \<lparr>cache = True, root = Null, state = FILLING\<rparr>"

text \<open>
  \<open>__insert_link\<close>: the iterative descent of the source, on the tree. A node with the
  same URL (and a non-empty one) ends the insertion without a change.
\<close>

fun insert_link :: "string \<Rightarrow> http_link \<Rightarrow> http_link" where
  "insert_link url Null = Link Null url Null"
| "insert_link url (Link l u r) =
     (let cmp = strcmp url u
      in if u \<noteq> [] \<and> cmp = 0 then Link l u r
         else if cmp < 0 then Link (insert_link url l) u r
         else Link l u (insert_link url r))"

text \<open>An empty archive: \<open>local_archive_exists\<close> finds no file.\<close>

definition empty_archive :: "string \<Rightarrow> bool" where
  "empty_archive path = False"

section \<open>The crawl engine (webreaper.c)\<close>

text \<open>
  The state the engine works on: the HTTP object, what the connection will still deliver
  and what has been written to it, the files and directories of the local file system,
  the counter \<open>nr_reaped\<close>, the two caches, and a record of the calls that leave no other
  trace (a ghost field). The calls of the status sink (the \<open>update_...\<close> functions and
  \<open>put_error_msg\<close>) are left out: the terminal is not modelled.
\<close>

datatype fs_node = File string | Dir

datatype call =
    Call_local_archive_exists string
  | Call_http_reconnect
  | Call_replace_with_local_urls
  | Call_parse_links

record crawl =
  http :: http_t
  pending :: wire
  written :: "string list"
  files :: "string \<Rightarrow> fs_node option"
  nr_reaped :: nat
  cache1 :: cache_ctx
  cache2 :: cache_ctx
  calls :: "call list"

text \<open>
  What the sources of the engine use and do not contain. Constants of the missing
  headers: the two request strings, \<open>WEBREAPER_DIR\<close>, \<open>NR_LINKS_THRESHOLD\<close>, and the four
  status values of the engine's own (\<open>HTTP_IS_XDOMAIN\<close>, \<open>HTTP_ALREADY_EXISTS\<close>,
  \<open>FL_HTTP_SKIP_LINK\<close>, \<open>HTTP_OPERATION_TIMEOUT\<close>). Functions of utils_url.c and of the
  missing part of the HTTP module: \<open>make_local_url\<close> (\<open>None\<close> when it fails),
  \<open>http_check_host\<close>. The effect on the page buffer of \<open>replace_with_local_urls\<close> and
  the effect on the filling cache of \<open>parse_links\<close>: both are in webreaper.c, but what
  they compute rests on \<open>make_full_url\<close>, \<open>make_local_url\<close> and the table \<open>url_types\<close>,
  none of which is among the sources. The environment: the network, whether the header
  cache hands out entries, which writes to the connection succeed (by their number), and
  which paths \<open>mkdir\<close> and \<open>open\<close> may create.
\<close>

record env =
  network :: net
  HTTP_USER_AGENT :: string
  HTTP_ACCEPT :: string
  WEBREAPER_DIR :: string
  NR_LINKS_THRESHOLD :: nat
  HTTP_IS_XDOMAIN :: int
  HTTP_ALREADY_EXISTS :: int
  FL_HTTP_SKIP_LINK :: int
  HTTP_OPERATION_TIMEOUT :: int
  make_local_url :: "http_t \<Rightarrow> string \<Rightarrow> string option"
  http_check_host :: "crawl \<Rightarrow> crawl"
  replace_with_local_urls :: "http_t \<Rightarrow> string \<Rightarrow> string"
  parse_links :: "http_t \<Rightarrow> cache_ctx \<Rightarrow> cache_ctx \<Rightarrow> cache_ctx"
  hcache_ok :: bool
  write_ok :: "nat \<Rightarrow> bool"
  fs_ok :: "string \<Rightarrow> bool"

text \<open>
  Modelled from the spec: the status macros of http.h, which is not among the sources.
  They are the status codes of HTTP that the spec's status table lists.
\<close>

definition HTTP_OK :: int where "HTTP_OK = 200"
definition HTTP_MOVED_PERMANENTLY :: int where "HTTP_MOVED_PERMANENTLY = 301"
definition HTTP_FOUND :: int where "HTTP_FOUND = 302"
definition HTTP_SEE_OTHER :: int where "HTTP_SEE_OTHER = 303"
definition HTTP_BAD_REQUEST :: int where "HTTP_BAD_REQUEST = 400"
definition HTTP_FORBIDDEN :: int where "HTTP_FORBIDDEN = 403"
definition HTTP_NOT_FOUND :: int where "HTTP_NOT_FOUND = 404"
definition HTTP_METHOD_NOT_ALLOWED :: int where "HTTP_METHOD_NOT_ALLOWED = 405"
definition HTTP_GONE :: int where "HTTP_GONE = 410"
definition HTTP_INTERNAL_ERROR :: int where "HTTP_INTERNAL_ERROR = 500"
definition HTTP_BAD_GATEWAY :: int where "HTTP_BAD_GATEWAY = 502"
definition HTTP_SERVICE_UNAV :: int where "HTTP_SERVICE_UNAV = 503"
definition HTTP_GATEWAY_TIMEOUT :: int where "HTTP_GATEWAY_TIMEOUT = 504"

definition HTTP_HEAD :: string where "HTTP_HEAD = ''HEAD''"
definition HTTP_GET :: string where "HTTP_GET = ''GET''"

subsection \<open>Link files and archival\<close>

definition no_url_files :: "string list" where
  "no_url_files =
     [''.jpg'', ''.jpeg'', ''.png'', ''.gif'', ''.js'', ''.css'', ''.pdf'', ''.svg'', ''.ico'']"

text \<open>\<open>__url_parseable\<close>: 0 as soon as one entry of \<open>no_url_files\<close> occurs in the URL.\<close>

definition url_parseable :: "string \<Rightarrow> bool" where
  "url_parseable url = (\<not> list_ex (\<lambda>f. strstr url f \<noteq> None) no_url_files)"

text \<open>
  Modelled from the spec: the macro \<open>HTTP_EOH\<close> of http.h, which is not among the
  sources. The spec has \<open>archive_page\<close> collapse the header bytes and leave only the body:
  the macro gives the offset just behind the end-of-header sentinel, NULL without one.
\<close>

definition HTTP_EOH :: "string \<Rightarrow> nat option" where
  "HTTP_EOH buf =
     map_option (\<lambda>i. i + length HTTP_EOH_SENTINEL) (strstr (cstr buf) HTTP_EOH_SENTINEL)"

text \<open>
  The loop of \<open>check_local_dirs\<close>: for every slash from offset \<open>e\<close> on, the path up to
  that slash is created as a directory unless \<open>access\<close> finds it. A failing \<open>mkdir\<close> only
  reports an error.
\<close>

function mkdirs :: "env \<Rightarrow> string \<Rightarrow> nat \<Rightarrow> (string \<Rightarrow> fs_node option) \<Rightarrow> (string \<Rightarrow> fs_node option)" where
  "mkdirs ev nm e fs =
     (if e < length nm
      then (case memchr (drop e nm) (CHR ''/'') (length nm - e) of
              None \<Rightarrow> fs
            | Some i \<Rightarrow>
                let dir = cstr (take (e + i) nm);
                    fs' = (if fs dir \<noteq> None then fs
                           else if fs_ok ev dir then fs(dir \<mapsto> Dir) else fs)
                in mkdirs ev nm (e + i + 1) fs')
      else fs)"
  by pat_completeness auto
termination
  by (relation "measure (\<lambda>(ev, nm, e, fs). length nm - e)") auto

text \<open>
  \<open>check_local_dirs(http, filename)\<close>: the return value, the file name (a trailing slash
  is snipped) and the file system. \<open>None\<close> when the source reads outside the file name:
  an empty name, or a search that starts behind its end.
\<close>

definition check_local_dirs ::
  "env \<Rightarrow> string \<Rightarrow> (string \<Rightarrow> fs_node option) \<Rightarrow> (int \<times> string \<times> (string \<Rightarrow> fs_node option)) option" where
  "check_local_dirs ev filename fs =
     (if filename = [] then None
      else
        let nm = (if last filename = CHR ''/'' then butlast filename else filename);
            endp = length nm
        in case strstr (cstr nm) (WEBREAPER_DIR ev) of
             None \<Rightarrow> Some (- 1, nm, fs)
           | Some p0 \<Rightarrow>
               let p = p0 + 1
               in if endp < p then None
                  else (case memchr (drop p nm) (CHR ''/'') (endp - p) of
                          None \<Rightarrow> Some (- 1, nm, fs)
                        | Some i \<Rightarrow> Some (0, nm, mkdirs ev nm (p + i + 1) fs)))"

text \<open>
  \<open>archive_page(http)\<close>: collapse the header, rewrite the URLs of a parseable page,
  compute the local path, create its directories, and write the buffer unless the file
  exists. The result is the return value with the state; \<open>None\<close> comes from
  \<open>check_local_dirs\<close>.
\<close>

definition archive_page :: "env \<Rightarrow> crawl \<Rightarrow> (int \<times> crawl) option" where
  "archive_page ev c =
     (let h = http c;
          buf = http_rbuf h;
          buf1 = (case HTTP_EOH buf of None \<Rightarrow> buf | Some p \<Rightarrow> buf_collapse buf 0 p);
          h1 = h\<lparr>http_rbuf := buf1\<rparr>;
          c1 = (if url_parseable (http_full_url h)
                then c\<lparr>http := h1\<lparr>http_rbuf := replace_with_local_urls ev h1 buf1\<rparr>,
                       calls := calls c @ [Call_replace_with_local_urls]\<rparr>
                else c\<lparr>http := h1\<rparr>);
          local_url = buf_collapse
                        (case make_local_url ev (http c1) (http_full_url h) of
                           None \<Rightarrow> [] | Some u \<Rightarrow> u)
                        0 (length ''file://'')
      in case check_local_dirs ev local_url (files c1) of
           None \<Rightarrow> None
         | Some (rv, local_url', fs') \<Rightarrow>
             let c2 = c1\<lparr>files := fs'\<rparr>
             in if rv < 0 then Some (- 1, c2)
                else if fs' (cstr local_url') \<noteq> None then Some (0, c2)
                else if \<not> fs_ok ev (cstr local_url') then Some (- 1, c2)
                else Some (0, c2\<lparr>nr_reaped := Suc (nr_reaped c2),
                                  files := fs'(cstr local_url' \<mapsto> File (http_rbuf (http c2)))\<rparr>))"

text \<open>
  The parseable set as the specification words it: the extension of the page is \<open>.html\<close>
  or \<open>.htm\<close>, or the URL ends in a slash.
\<close>

definition spec_parseable :: "string \<Rightarrow> bool" where
  "spec_parseable url = (suffix ''.html'' url \<or> suffix ''.htm'' url \<or> suffix ''/'' url)"




subsection \<open>A concrete engine\<close>

text \<open>
  An environment and a state for concrete runs. The four status values of the engine's
  own are given values outside the status codes of HTTP; \<open>make_local_url\<close> maps
  \<open>http://host/path\<close> below \<open>/home/u/WR_Reaped/\<close>; the rewriter marks the buffer it is
  given; \<open>parse_links\<close> and \<open>http_check_host\<close> change nothing; every write and every
  creation of a file or directory succeeds.
\<close>

definition example_env :: env where
  "example_env =
     \<lparr>network = example_net,
      HTTP_USER_AGENT = ''webreaper'',
      HTTP_ACCEPT = ''*/*'',
      WEBREAPER_DIR = ''WR_Reaped'',
      NR_LINKS_THRESHOLD = 500,
      HTTP_IS_XDOMAIN = 1001,
      HTTP_ALREADY_EXISTS = 1002,
      FL_HTTP_SKIP_LINK = 1003,
      HTTP_OPERATION_TIMEOUT = 1004,
      make_local_url = (\<lambda>h url. Some (''file:///home/u/WR_Reaped/'' @ drop 7 url)),
      http_check_host = (\<lambda>c. c),
      replace_with_local_urls = (\<lambda>h buf. ''[local]'' @ buf),
      parse_links = (\<lambda>h fctx dctx. fctx),
      hcache_ok = True,
      write_ok = (\<lambda>n. True),
      fs_ok = (\<lambda>path. True)\<rparr>"

text \<open>
  The state after the page at \<open>url\<close> of \<open>a.test\<close> has been received into the read buffer
  as \<open>response\<close>, and the state before a request, with \<open>script\<close> still to be delivered.
\<close>

definition example_crawl :: "string \<Rightarrow> string \<Rightarrow> wire \<Rightarrow> crawl" where
  "example_crawl url response script =
     \<lparr>http = \<lparr>http_host = ''a.test'', http_page = ''/'', http_full_url = url,
               http_primary_host = ''a.test'', usingSecure = False,
               http_socket = Connected (''10.0.0.1'', 80), http_tls = None,
               host_ipv4 = ''10.0.0.1'', http_rbuf = response, http_wbuf = []\<rparr>,
      pending = script,
      written = [],
      files = (\<lambda>path. None),
      nr_reaped = 0,
      cache1 = example_dctx,
      cache2 = example_fctx,
      calls = []\<rparr>"

subsection \<open>Requests\<close>

text \<open>
  Modelled from the spec: \<open>http_send_request(http, verb)\<close> of the engine's HTTP module,
  which is not among the sources (http.c holds an older variant that only writes the
  write buffer). The spec: the request for the verb and the current page is built as
  \<open>http_build_request_header\<close> does and written to the connection; a failing write is
  reported by \<open>-1\<close>.
\<close>

definition http_send_request :: "env \<Rightarrow> string \<Rightarrow> crawl \<Rightarrow> int \<times> crawl" where
  "http_send_request ev verb c =
     (let h = http c;
          req = request_format (HTTP_USER_AGENT ev) (HTTP_ACCEPT ev) verb (http_page h)
                  (strip_one_slash (http_host h));
          c1 = c\<lparr>http := h\<lparr>http_wbuf := req\<rparr>\<rparr>
      in if write_ok ev (length (written c)) then (0, c1\<lparr>written := written c @ [req]\<rparr>)
         else (- 1, c1))"

text \<open>
  Modelled from the spec: \<open>http_recv_response(struct http_t *)\<close>, the reception that
  \<open>do_request\<close> calls, which is not among the sources (http.c holds the variant on
  \<open>connection_t\<close>). The spec (response receive): read until the sentinel, then receive
  the body by \<open>Transfer-Encoding: chunked\<close>, by \<open>Content-Length\<close>, or up to \<open></body\<close>. That
  is what the variant of http.c does, so the reception here is that function, on what the
  connection delivers and on the read buffer of the HTTP object.
\<close>

definition recv_response :: "env \<Rightarrow> crawl \<Rightarrow> (int \<times> crawl) option" where
  "recv_response ev c =
     map_option (\<lambda>(r, w, buf). (r, c\<lparr>pending := w, http := (http c)\<lparr>http_rbuf := buf\<rparr>\<rparr>))
       (http_recv_response (hcache_ok ev) (pending c) (http_rbuf (http c)))"

text \<open>\<open>http_reconnect\<close> on the HTTP object of the state; its return value is not used.\<close>

definition reconnect_http :: "env \<Rightarrow> crawl \<Rightarrow> crawl" where
  "reconnect_http ev c =
     c\<lparr>http := snd (http_reconnect (network ev) (http c)),
       calls := calls c @ [Call_http_reconnect]\<rparr>"

text \<open>
  Modelled from the spec: \<open>local_archive_exists\<close> of utils_url.c and
  \<open>http_connection_closed\<close> of the HTTP module, which are not among the sources. The
  spec: the first is \<open>access(make_local_url(url)) == OK\<close>, the second the presence of
  \<open>Connection: close\<close> among the response headers.
\<close>

definition local_archive_exists :: "env \<Rightarrow> crawl \<Rightarrow> string \<Rightarrow> bool" where
  "local_archive_exists ev c url =
     (case make_local_url ev (http c) url of
        None \<Rightarrow> False
      | Some u \<Rightarrow> files c (buf_collapse u 0 (length ''file://'')) \<noteq> None)"

definition http_connection_closed :: "http_t \<Rightarrow> bool" where
  "http_connection_closed h = (strstr (cstr (http_rbuf h)) ''Connection: close'' \<noteq> None)"

text \<open>
  \<open>do_request(http)\<close>: HEAD first; a status other than 200 is returned at once; then the
  archive check, a reconnect when the peer closes, and GET. The result is the status
  (\<open>-1\<close> from \<open>fail\<close>) with the state; \<open>None\<close> when a reception has no result.
\<close>

definition do_request :: "env \<Rightarrow> crawl \<Rightarrow> (int \<times> crawl) option" where
  "do_request ev c =
     (case http_send_request ev HTTP_HEAD c of
        (r1, c1) \<Rightarrow>
          if r1 < 0 then Some (- 1, c1)
          else (case recv_response ev c1 of
                  None \<Rightarrow> None
                | Some (r2, c2) \<Rightarrow>
                    if r2 < 0 then Some (- 1, c2)
                    else (case http_status_code_int (http_rbuf (http c2)) of
                            None \<Rightarrow> None
                          | Some status_code \<Rightarrow>
                              if HTTP_OK \<noteq> status_code then Some (status_code, c2)
                              else
                                let c3 = c2\<lparr>calls := calls c2 @
                                           [Call_local_archive_exists (http_full_url (http c2))]\<rparr>
                                in if local_archive_exists ev c3 (http_full_url (http c3))
                                   then Some (HTTP_ALREADY_EXISTS ev, c3)
                                   else
                                     let c4 = (if http_connection_closed (http c3)
                                               then reconnect_http ev c3 else c3)
                                     in (case recv_response ev (snd (http_send_request ev HTTP_GET c4)) of
                                           None \<Rightarrow> None
                                         | Some (r3, c5) \<Rightarrow>
                                             map_option (\<lambda>st. (st, c5))
                                               (http_status_code_int (http_rbuf (http c5)))))))"

subsection \<open>The loop over the links of a level\<close>

text \<open>Where control goes after a step of the loop body of \<open>reap\<close>.\<close>

datatype flow = Break | Goto_next | Goto_fail

text \<open>
  The \<open>switch\<close> on the status in \<open>reap\<close>. C requires the case labels to differ, so the
  order of the tests makes no difference for the values the headers can have.
\<close>

definition reap_switch :: "env \<Rightarrow> int \<Rightarrow> crawl \<Rightarrow> flow \<times> crawl" where
  "reap_switch ev status_code c =
     (if status_code = HTTP_OK \<or> status_code = HTTP_GONE \<or> status_code = HTTP_NOT_FOUND
      then (Break, c)
      else if status_code = HTTP_BAD_REQUEST
      then (Goto_next,
            reconnect_http ev (c\<lparr>http := (http c)\<lparr>http_wbuf := [], http_rbuf := []\<rparr>\<rparr>))
      else if status_code = HTTP_METHOD_NOT_ALLOWED \<or> status_code = HTTP_FORBIDDEN
              \<or> status_code = HTTP_INTERNAL_ERROR \<or> status_code = HTTP_BAD_GATEWAY
              \<or> status_code = HTTP_SERVICE_UNAV \<or> status_code = HTTP_GATEWAY_TIMEOUT
      then (Goto_next,
            reconnect_http ev (c\<lparr>http := (http c)\<lparr>http_wbuf := [], http_rbuf := []\<rparr>\<rparr>))
      else if status_code = HTTP_IS_XDOMAIN ev \<or> status_code = HTTP_ALREADY_EXISTS ev
              \<or> status_code = FL_HTTP_SKIP_LINK ev
      then (Goto_next, c)
      else if status_code = HTTP_OPERATION_TIMEOUT ev
      then (Goto_next,
            reconnect_http ev
              (c\<lparr>http := (http c)\<lparr>http_rbuf := [],
                    http_host := (if http_host (http c) = [] then http_primary_host (http c)
                                  else http_host (http c))\<rparr>\<rparr>))
      else (Goto_fail, c))"

text \<open>
  Modelled from the spec: \<open>wr_cache_nr_used\<close> of cache.c, which is not among the
  sources. By invariant I4 of the spec the number of objects in use is the number of
  entries reachable from the root.
\<close>

fun nr_links :: "http_link \<Rightarrow> nat" where
  "nr_links Null = 0"
| "nr_links (Link l u r) = nr_links l + 1 + nr_links r"

definition wr_cache_nr_used :: "cache_ctx \<Rightarrow> nat" where
  "wr_cache_nr_used ctx = nr_links (root ctx)"

text \<open>The block \<open>if (fill) ...\<close>: links are parsed into the filling cache.\<close>

definition fill_step :: "env \<Rightarrow> bool \<Rightarrow> crawl \<Rightarrow> bool \<times> crawl" where
  "fill_step ev fill c =
     (if fill \<and> url_parseable (http_full_url (http c))
      then (if state (cache1 c) = DRAINING
            then let f = parse_links ev (http c) (cache2 c) (cache1 c)
                 in (\<not> NR_LINKS_THRESHOLD ev \<le> wr_cache_nr_used f,
                     c\<lparr>cache2 := f, calls := calls c @ [Call_parse_links]\<rparr>)
            else let f = parse_links ev (http c) (cache1 c) (cache2 c)
                 in (\<not> NR_LINKS_THRESHOLD ev \<le> wr_cache_nr_used f,
                     c\<lparr>cache1 := f, calls := calls c @ [Call_parse_links]\<rparr>))
      else (fill, c))"

text \<open>
  The loop body from the \<open>switch\<close> to the label \<open>next\<close>, for the status that \<open>do_request\<close>
  has returned: where control goes, the flag \<open>fill\<close>, the state.
\<close>

definition reap_status :: "env \<Rightarrow> bool \<Rightarrow> int \<Rightarrow> crawl \<Rightarrow> (flow \<times> bool \<times> crawl) option" where
  "reap_status ev fill status_code c =
     (if status_code < 0 then Some (Goto_fail, fill, c)
      else (case reap_switch ev status_code c of
              (Break, c1) \<Rightarrow>
                (case fill_step ev fill c1 of
                   (fill', c2) \<Rightarrow>
                     map_option (\<lambda>(rv, c3). (Goto_next, fill', c3)) (archive_page ev c2))
            | (fl, c1) \<Rightarrow> Some (fl, fill, c1)))"

text \<open>
  The start of the loop body for one link: the write buffer is cleared, the URL (after
  \<open>http_parse_page\<close>, which strips a final slash) is in \<open>full_url\<close>, the page is set,
  and \<open>http_check_host\<close> has run.
\<close>

definition link_request_state :: "env \<Rightarrow> string \<Rightarrow> string \<Rightarrow> crawl \<Rightarrow> crawl" where
  "link_request_state ev url' pg c =
     http_check_host ev
       (c\<lparr>http := (http c)\<lparr>http_wbuf := [], http_full_url := url', http_page := pg\<rparr>\<rparr>)"

text \<open>
  The loop body for one link. A link with an empty URL is passed over; \<open>None\<close> stands
  for a page that \<open>http_parse_page\<close> leaves undefined.
\<close>

definition reap_link :: "env \<Rightarrow> bool \<Rightarrow> string \<Rightarrow> crawl \<Rightarrow> (flow \<times> bool \<times> crawl) option" where
  "reap_link ev fill url c =
     (if url = [] then Some (Goto_next, fill, c\<lparr>http := (http c)\<lparr>http_wbuf := []\<rparr>\<rparr>)
      else (case http_parse_page url of
              None \<Rightarrow> None
            | Some (url', None) \<Rightarrow> None
            | Some (url', Some pg) \<Rightarrow>
                (case do_request ev (link_request_state ev url' pg c) of
                   None \<Rightarrow> None
                 | Some (status_code, c2) \<Rightarrow> reap_status ev fill status_code c2)))"

text \<open>
  The \<open>for\<close> loop of \<open>reap\<close> over the links of the draining cache: \<open>-1\<close> when a link
  leads to \<open>fail\<close>, where \<open>reap\<close> returns \<open>-1\<close> and the crawl is over; \<open>0\<close> when the loop
  has run through.
\<close>

fun reap_links :: "env \<Rightarrow> bool \<Rightarrow> string list \<Rightarrow> crawl \<Rightarrow> (int \<times> crawl) option" where
  "reap_links ev fill [] c = Some (0, c)"
| "reap_links ev fill (url # rest) c =
     (case reap_link ev fill url c of
        None \<Rightarrow> None
      | Some (Goto_fail, fill', c') \<Rightarrow> Some (- 1, c')
      | Some (fl, fill', c') \<Rightarrow> reap_links ev fill' rest c')"

chapter \<open>Verified properties\<close>

section \<open>Frame effect of http_parse_page\<close>

text \<open>
  Claim C10. For every non-empty URL string whose last character is a slash,
  \<open>http_parse_page\<close> overwrites that slash with NUL in the caller's string, which
  shortens the string by its last character; a non-empty string that does not end in a
  slash is left as it was. (The crawl engine never passes the empty string: \<open>reap\<close>
  skips links of length 0 before the call.)
\<close>

theorem http_parse_page_input_effect:
  "url \<noteq> [] \<Longrightarrow>
     \<exists>page. http_parse_page url =
       Some (if last url = CHR ''/'' then butlast url else url, page)"
  by (auto simp: http_parse_page_def Let_def butlast_conv_take split: option.splits)

theorem http_parse_page_input_effect_witness:
  "''http://a.test/dir/'' \<noteq> [] \<and>
   http_parse_page ''http://a.test/dir/'' = Some (''http://a.test/dir'', Some ''/dir'') \<and>
   http_parse_page ''http://a.test/a.html'' = Some (''http://a.test/a.html'', Some ''/a.html'')"
  using http_parse_page_input_effect [of "''http://a.test/dir/''"]
  by (simp add: http_parse_page_def byte_at_def eval_nat_numeral Let_def)

section \<open>The request built by http_build_request_header\<close>

text \<open>
  Claim C6. For every verb, target and connection host, \<open>http_build_request_header\<close>
  appends to the write buffer exactly the request
  \<open><VERB> <target> HTTP/1.1 CRLF User-Agent: <ua> CRLF Accept: <accept> CRLF Host: <host> CRLF
  Connection: keep-alive CRLF CRLF\<close>, where \<open><host>\<close> is the connection's host with a
  single trailing slash stripped, and nothing else of the connection changes. The host is
  a host name (not empty) and the request fits the 4096 bytes of \<open>header_buf\<close>, as it does
  for the verbs, URLs (at most \<open>HTTP_URL_MAX\<close> bytes) and hosts of the crawler.
\<close>

theorem http_build_request_header_appends:
  assumes "host conn \<noteq> []"
    and "length (spec_request ua accept verb target (strip_one_slash (host conn))) < 4096"
  shows "http_build_request_header ua accept conn verb target =
           Some (conn\<lparr>write_buf := write_buf conn @
                   spec_request ua accept verb target (strip_one_slash (host conn))\<rparr>)"
  using assms
  by (simp add: http_build_request_header_def request_format_def spec_request_def
      strip_one_slash_def HTTP_VERSION_def HTTP_EOH_SENTINEL_def CRLF_def Let_def)

theorem http_build_request_header_appends_witness:
  "http_build_request_header ''wr'' ''*/*''
     \<lparr>host = ''a.test/'', page = ''/x'', full_url = ''http://a.test/x'',
      primary_host = ''a.test'', sock = Closed, ssl = None, read_buf = [], write_buf = ''Q''\<rparr>
     ''HEAD'' ''/x''
   = Some \<lparr>host = ''a.test/'', page = ''/x'', full_url = ''http://a.test/x'',
      primary_host = ''a.test'', sock = Closed, ssl = None, read_buf = [],
      write_buf = ''QHEAD /x HTTP/1.1'' @ [CR, LF] @ ''User-Agent: wr'' @ [CR, LF] @
        ''Accept: */*'' @ [CR, LF] @ ''Host: a.test'' @ [CR, LF] @
        ''Connection: keep-alive'' @ [CR, LF, CR, LF]\<rparr>"
  using http_build_request_header_appends [of
     "\<lparr>host = ''a.test/'', page = ''/x'', full_url = ''http://a.test/x'',
      primary_host = ''a.test'', sock = Closed, ssl = None, read_buf = [], write_buf = ''Q''\<rparr>"
     "''wr''" "''*/*''" "''HEAD''" "''/x''"]
  by (simp add: spec_request_def strip_one_slash_def)

section \<open>Helper lemmas on the string primitives\<close>

lemma memchr_first:
  "c \<notin> set xs \<Longrightarrow> length xs < n \<Longrightarrow> memchr (xs @ c # ys) c n = Some (length xs)"
proof (induction xs arbitrary: n)
  case Nil
  then show ?case by (cases n) auto
next
  case (Cons x xs)
  then show ?case by (cases n) auto
qed

lemma cstr_id: "NUL \<notin> set w \<Longrightarrow> cstr w = w"
  by (auto simp: cstr_def takeWhile_eq_all_conv)

lemma byte_at_drop: "byte_at s (i + k) = byte_at (drop i s) k"
  by (auto simp: byte_at_def add.commute)

lemma skip_one_space_set: "set (skip_one_space w) \<subseteq> set w"
  by (auto simp: skip_one_space_def split: list.splits if_splits)

lemma value_scan:
  assumes "CR \<notin> set w"
  shows "memchr (drop (if byte_at (w @ CR # rest) 0 \<noteq> CHR '' '' then 0 else 1) (w @ CR # rest)) CR
           (length (w @ CR # rest) - (if byte_at (w @ CR # rest) 0 \<noteq> CHR '' '' then 0 else 1))
         = Some (length (skip_one_space w))
       \<and> take (length (skip_one_space w))
           (drop (if byte_at (w @ CR # rest) 0 \<noteq> CHR '' '' then 0 else 1) (w @ CR # rest))
         = skip_one_space w"
proof (cases w)
  case Nil
  then show ?thesis by (simp add: byte_at_def skip_one_space_def)
next
  case (Cons c cs)
  with assms have "CR \<notin> set cs" by simp
  show ?thesis
  proof (cases "c = CHR '' ''")
    case True
    with Cons \<open>CR \<notin> set cs\<close> show ?thesis
      by (simp add: byte_at_def skip_one_space_def memchr_first)
  next
    case False
    have "memchr (w @ CR # rest) CR (length (w @ CR # rest)) = Some (length w)"
      using assms by (intro memchr_first) auto
    with False Cons show ?thesis
      by (simp add: byte_at_def skip_one_space_def)
  qed
qed

section \<open>The header entry returned for Set-Cookie\<close>

text \<open>
  Claim C7, as the specification states it, fails: the value does not start at the first
  character after the colon that is not a space. The source skips one space after the
  colon and no more (\<open>p = q + 2; if (*(p-1) != ' ') --p;\<close>), so a header with two spaces
  after the colon is returned with a value that starts with a space.
\<close>

theorem http_fetch_header_value_counterexample:
  "http_fetch_header (''HTTP/1.1 200 OK'' @ [CR, LF] @ ''Set-Cookie:  k=v'' @ [CR, LF, CR, LF])
      ''Set-Cookie'' \<lparr>name = [], value = [], nlen = 0, vlen = 0\<rparr> 0
     = Some (True, \<lparr>name = ''Cookie'', value = '' k=v'', nlen = 6, vlen = 4\<rparr>)
   \<and> spec_header_value (''  k=v'' @ [CR, LF, CR, LF]) = ''k=v''"
  by (simp add: http_fetch_header_def cstr_def HTTP_EOH_SENTINEL_def HTTP_HNAME_MAX_def
      HTTP_COOKIE_MAX_def byte_at_def spec_header_value_def eval_nat_numeral Let_def)

text \<open>
  Claim C7, amended. When the first occurrence of \<open>Set-Cookie\<close> from the start offset is
  a header \<open>Set-Cookie:\<close> followed by a text \<open>w\<close> and a CR, and the end-of-header sentinel
  is present, \<open>http_fetch_header\<close> succeeds and the entry carries the name \<open>Cookie\<close> (not
  \<open>Set-Cookie\<close>); its value is \<open>w\<close>, the text between the colon and the next CR, without
  its first character when that is a space. (\<open>w\<close> has no NUL and fits the value storage.)
\<close>

theorem http_fetch_header_set_cookie:
  assumes wh: "whence \<le> length buf"
    and shape: "drop whence buf = pre @ ''Set-Cookie:'' @ w @ CR # rest"
    and first: "strstr (cstr (drop whence buf)) ''Set-Cookie'' = Some (length pre)"
    and eoh: "strstr (cstr (drop whence buf)) HTTP_EOH_SENTINEL \<noteq> None"
    and w: "CR \<notin> set w" "NUL \<notin> set w"
    and len: "length (skip_one_space w) \<le> HTTP_COOKIE_MAX"
  shows "http_fetch_header buf ''Set-Cookie'' hh whence =
           Some (True, hh\<lparr>name := ''Cookie'', nlen := 6,
                          value := skip_one_space w, vlen := length (skip_one_space w)\<rparr>)"
proof -
  let ?p = "whence + length pre"
  let ?after = "w @ CR # rest"
  have dp: "drop ?p buf = ''Set-Cookie:'' @ ?after"
  proof -
    have "drop ?p buf = drop (length pre) (drop whence buf)"
      by (simp add: add.commute)
    then show ?thesis unfolding shape by simp
  qed
  have lp: "length buf - ?p = 11 + length ?after"
    using arg_cong [OF dp, of length] by simp
  have colon: "memchr (drop ?p buf) (CHR '':'') (length buf - ?p) = Some 10"
    unfolding dp lp using memchr_first [of "CHR '':''" "''Set-Cookie''" "11 + length ?after" ?after]
    by simp
  have cookie: "strncmp_eq ''Set-Cookie'' (drop ?p buf) 10"
    unfolding dp by (simp add: eval_nat_numeral byte_at_def)
  have dq: "drop (11 + k + ?p) buf = drop k ?after" for k
  proof -
    have "drop (11 + k + ?p) buf = drop k (drop 11 (drop ?p buf))"
      by (simp add: ac_simps)
    then show ?thesis unfolding dp by simp
  qed
  have d1: "drop (11 + ?p) buf = ?after" and d2: "drop (12 + ?p) buf = drop 1 ?after"
    using dq [of 0] dq [of 1] by simp_all
  have b: "byte_at buf (11 + ?p) = byte_at ?after 0"
    using byte_at_drop [of buf "11 + ?p" 0] d1 by simp
  have l1: "length buf - (11 + ?p) = length ?after"
    and l2: "length buf - (12 + ?p) = length ?after - 1"
    using lp by simp_all
  note vs = value_scan [OF w(1), of rest]
  have nul: "cstr (skip_one_space w) = skip_one_space w"
    using w(2) skip_one_space_set [of w] by (intro cstr_id) auto
  obtain hend where hend: "strstr (cstr (drop whence buf)) HTTP_EOH_SENTINEL = Some hend"
    using eoh by auto
  show ?thesis
  proof (cases "byte_at ?after 0 \<noteq> CHR '' ''")
    case True
    from vs True have m: "memchr ?after CR (length ?after) = Some (length (skip_one_space w))"
      and t: "take (length (skip_one_space w)) ?after = skip_one_space w" by simp_all
    show ?thesis
      unfolding http_fetch_header_def Let_def
      using wh first hend colon cookie len nul True
      by (simp add: b d1 l1 m t del: memchr.simps strstr.simps strncmp_eq.simps
          length_append take_append append.simps)
  next
    case False
    from vs False have m: "memchr (drop (Suc 0) ?after) CR (length ?after - Suc 0) = Some (length (skip_one_space w))"
      and t: "take (length (skip_one_space w)) (drop (Suc 0) ?after) = skip_one_space w" by simp_all
    show ?thesis
      unfolding http_fetch_header_def Let_def
      using wh first hend colon cookie len nul False
      by (simp add: b d2 l2 m t del: memchr.simps strstr.simps strncmp_eq.simps
          length_append take_append drop_append append.simps drop_Cons' )
  qed
qed

theorem http_fetch_header_set_cookie_witness:
  "http_fetch_header (''HTTP/1.1 200 OK'' @ [CR, LF] @ ''Set-Cookie: k=v'' @ [CR, LF, CR, LF])
      ''Set-Cookie'' \<lparr>name = ''x'', value = ''y'', nlen = 1, vlen = 1\<rparr> 0
     = Some (True, \<lparr>name = ''Cookie'', value = ''k=v'', nlen = 6, vlen = 3\<rparr>)"
  using http_fetch_header_set_cookie [of 0
      "''HTTP/1.1 200 OK'' @ [CR, LF] @ ''Set-Cookie: k=v'' @ [CR, LF, CR, LF]"
      "''HTTP/1.1 200 OK'' @ [CR, LF]" "'' k=v''" "[LF, CR, LF]"
      "\<lparr>name = ''x'', value = ''y'', nlen = 1, vlen = 1\<rparr>"]
  by (simp add: cstr_def HTTP_EOH_SENTINEL_def HTTP_COOKIE_MAX_def skip_one_space_def)

section \<open>The body left by a chunked reception\<close>

text \<open>
  Claim C2 says that after a successful \<open>http_recv_response\<close> of a chunked response the
  body in the read buffer is exactly the concatenation of the chunk payloads. The source
  does not achieve that: at the chunk of length 0 it steps one byte back (\<open>--p\<close>) before
  it collapses the rest of the buffer, and so removes the last byte of the last payload.
  Here the response of the specification's scenario, chunks of \<open>0x10\<close>, \<open>0x20\<close> and
  \<open>0x0\<close> bytes, arrives in one read: the call returns 0 and leaves 47 bytes of body, the
  48 bytes of the two payloads without the last one.
\<close>

theorem http_recv_response_chunked_loses_last_byte:
  "http_recv_response True
     [RdData (''HTTP/1.1 200 OK'' @ [CR, LF] @ ''Transfer-Encoding: chunked'' @ [CR, LF, CR, LF] @
              ''10'' @ [CR, LF] @ ''0123456789abcdef'' @ [CR, LF] @
              ''20'' @ [CR, LF] @ ''0123456789abcdef0123456789ABCDEF'' @ [CR, LF] @
              ''0'' @ [CR, LF, CR, LF])] []
     = Some (0, [], ''HTTP/1.1 200 OK'' @ [CR, LF] @ ''Transfer-Encoding: chunked'' @ [CR, LF, CR, LF] @
                    ''0123456789abcdef0123456789abcdef0123456789ABCDE'')
   \<and> spec_chunked_body [''0123456789abcdef'', ''0123456789abcdef0123456789ABCDEF'']
       = ''0123456789abcdef0123456789abcdef0123456789ABCDEF''"
  by code_simp

section \<open>Which host a reconnect resolves\<close>

text \<open>
  Claim C4, as the specification states it, fails for \<open>http_reconnect\<close>, the reconnect of
  http_conn.c that the crawl engine calls: it resolves the current host, not the primary
  host, and leaves the host field alone. Here a connection of a crawl of \<open>a.test\<close> that
  talks to \<open>b.test\<close> is reconnected: the call succeeds, the socket is connected to the
  address of \<open>b.test\<close>, and the host is still \<open>b.test\<close>, not the primary host.
\<close>

theorem http_reconnect_current_host_counterexample:
  "fst (http_reconnect example_net example_http) = 0
   \<and> http_socket (snd (http_reconnect example_net example_http)) = Connected (''10.0.0.2'', 80)
   \<and> resolve example_net (http_primary_host example_http) = Some ''10.0.0.1''
   \<and> http_host (snd (http_reconnect example_net example_http)) = ''b.test''
   \<and> http_primary_host (snd (http_reconnect example_net example_http)) = ''a.test''"
  by (simp add: http_reconnect_def dial_def example_net_def example_http_def store_ipv4_def
      HTTP_PORT_def Let_def)

text \<open>
  Claim C4, amended. Every call of \<open>reconnect\<close> (connection.c) closes the socket and
  copies the primary host over the host; when it succeeds, the socket is connected to the
  address resolved from the primary host, on the port of the unchanged TLS option, and
  when the resolution fails the socket stays closed. Every call of \<open>http_reconnect\<close>
  (http_conn.c) leaves both host fields and \<open>usingSecure\<close> as they were; when it succeeds,
  the socket is connected to the address resolved from the current host, and when the
  resolution fails the socket stays closed.
\<close>

theorem reconnect_resolves:
  assumes "reconnect nw pr conn = (rv, conn')"
    and "http_reconnect nw h = (rv2, h')"
  shows "host conn' = primary_host conn \<and> primary_host conn' = primary_host conn
     \<and> (rv = 0 \<longrightarrow> (\<exists>ip. resolve nw (primary_host conn) = Some ip
            \<and> sock conn' = Connected (ip, if OPT_USE_TLS pr then HTTPS_PORT else HTTP_PORT)))
     \<and> (resolve nw (primary_host conn) = None \<longrightarrow> rv = - 1 \<and> sock conn' = Closed)
     \<and> http_host h' = http_host h \<and> http_primary_host h' = http_primary_host h
     \<and> usingSecure h' = usingSecure h
     \<and> (rv2 = 0 \<longrightarrow> (\<exists>ip. resolve nw (http_host h) = Some ip
            \<and> http_socket h' = Connected (ip, if usingSecure h then HTTPS_PORT else HTTP_PORT)))
     \<and> (resolve nw (http_host h) = None \<longrightarrow> rv2 = - 1 \<and> http_socket h' = Closed)"
proof -
  have a: "host conn' = primary_host conn \<and> primary_host conn' = primary_host conn
     \<and> (rv = 0 \<longrightarrow> (\<exists>ip. resolve nw (primary_host conn) = Some ip
            \<and> sock conn' = Connected (ip, if OPT_USE_TLS pr then HTTPS_PORT else HTTP_PORT)))
     \<and> (resolve nw (primary_host conn) = None \<longrightarrow> rv = - 1 \<and> sock conn' = Closed)"
    using assms(1)
    by (auto simp: reconnect_def dial_def Let_def split: option.splits if_splits)
  have b: "http_host h' = http_host h \<and> http_primary_host h' = http_primary_host h
     \<and> usingSecure h' = usingSecure h
     \<and> (rv2 = 0 \<longrightarrow> (\<exists>ip. resolve nw (http_host h) = Some ip
            \<and> http_socket h' = Connected (ip, if usingSecure h then HTTPS_PORT else HTTP_PORT)))
     \<and> (resolve nw (http_host h) = None \<longrightarrow> rv2 = - 1 \<and> http_socket h' = Closed)"
    using assms(2)
    by (auto simp: http_reconnect_def dial_def store_ipv4_def Let_def
        split: option.splits if_splits)
  from a b show ?thesis by blast
qed

theorem reconnect_resolves_witness:
  "reconnect example_net example_proc example_conn
     = (0, example_conn\<lparr>host := ''a.test'', sock := Connected (''10.0.0.1'', 80)\<rparr>)
   \<and> http_reconnect example_net example_http = (0, example_http)
   \<and> resolve example_net ''a.test'' = Some ''10.0.0.1''
   \<and> resolve example_net ''b.test'' = Some ''10.0.0.2''"
  using reconnect_resolves [of example_net example_proc example_conn 0
      "example_conn\<lparr>host := ''a.test'', sock := Connected (''10.0.0.1'', 80)\<rparr>"
      example_http 0 example_http]
  by (simp add: reconnect_def http_reconnect_def dial_def store_ipv4_def example_net_def
      example_proc_def example_conn_def example_http_def HTTP_PORT_def Let_def)

section \<open>How often the TLS library is initialised\<close>

text \<open>
  The guarded path. In http_conn.c the initialisation runs under \<open>pthread_once\<close> (its
  comment: calling it more than once has caused segfaults, so do it once only). Over every
  sequence of connects, disconnects, reconnects and upgrades it has run at most once, and
  it has run exactly when the once-control has fired.
\<close>

lemma http_step_once:
  assumes "ssl_inits pr = (if ossl_init_once pr then 1 else 0)"
    and "http_step nw x (pr, h) = (pr', h')"
  shows "ssl_inits pr' = (if ossl_init_once pr' then 1 else 0)"
  using assms
  by (cases x)
     (auto simp: http_connect_def HTTP_upgrade_to_TLS_def pthread_once_init_openssl_def
       init_openssl_def Let_def split: prod.splits if_splits)

lemma http_run_once:
  "ssl_inits pr = (if ossl_init_once pr then 1 else 0) \<Longrightarrow>
   http_run nw ops (pr, h) = (pr', h') \<Longrightarrow>
   ssl_inits pr' = (if ossl_init_once pr' then 1 else 0)"
proof (induction ops arbitrary: pr h)
  case Nil
  then show ?case by (simp add: http_run_def)
next
  case (Cons x xs)
  obtain pr1 h1 where st: "http_step nw x (pr, h) = (pr1, h1)"
    by (cases "http_step nw x (pr, h)") auto
  from http_step_once [OF Cons.prems(1) st]
  have inv: "ssl_inits pr1 = (if ossl_init_once pr1 then 1 else 0)" .
  from Cons.prems(2) st have "http_run nw xs (pr1, h1) = (pr', h')"
    by (simp add: http_run_def)
  from Cons.IH [OF inv this] show ?case .
qed

text \<open>
  Claim C8 says that over every sequence of opens, reconnects and upgrades the TLS
  library is initialised exactly once. \<open>open_connection\<close> of connection.c breaks that: it
  calls \<open>__init_openssl\<close> directly, without the once-control of its sibling
  \<open>http_connect\<close>, each time it connects with \<open>OPT_USE_TLS\<close> set. Here a process with
  the option set opens a connection, closes it and opens it again, both times with
  success: the initialisation has run twice.
\<close>

theorem open_connection_tls_init_twice:
  "ssl_inits (fst (conn_run example_net [Op_open, Op_close, Op_open]
      (example_proc\<lparr>OPT_USE_TLS := True\<rparr>, example_conn\<lparr>sock := Closed\<rparr>))) = 2
   \<and> sock (snd (conn_run example_net [Op_open, Op_close, Op_open]
      (example_proc\<lparr>OPT_USE_TLS := True\<rparr>, example_conn\<lparr>sock := Closed\<rparr>)))
       = Connected (''10.0.0.2'', 443)"
  by (simp add: conn_run_def open_connection_def close_connection_def dial_def
      init_openssl_def tls_session_def example_net_def example_proc_def example_conn_def
      HTTPS_PORT_def Let_def)

section \<open>What an accepted URL satisfies\<close>

lemma memchr_None_iff: "memchr s c (length s) = None \<longleftrightarrow> c \<notin> set s"
  by (induction s) auto

lemma strstr_None_iff: "strstr hs nd = None \<longleftrightarrow> \<not> sublist nd hs"
  by (induction hs) (auto simp: sublist_Cons_right)

lemma strcmp_refl: "strcmp x x = 0"
  by (induction x) auto

lemma draining_twin_complete:
  "ordered t \<Longrightarrow> url \<in> urls t \<Longrightarrow> url \<noteq> [] \<Longrightarrow> draining_twin url t"
proof (induction t)
  case Null
  then show ?case by simp
next
  case (Link l u r)
  then show ?case
    by (auto simp: Let_def strcmp_refl)
qed

lemma strcmp_eq_0: "strcmp x y = 0 \<Longrightarrow> x = y"
  by (induction x y rule: strcmp.induct) (auto split: if_splits)

lemma urls_insert_link: "urls (insert_link url t) = urls t \<union> {url}"
  by (induction t) (auto simp: Let_def dest: strcmp_eq_0)

text \<open>
  The order is what the insertions of the source build: every insertion of a non-empty
  URL into an ordered index leaves an ordered index.
\<close>

lemma ordered_insert_link:
  "ordered t \<Longrightarrow> url \<noteq> [] \<Longrightarrow> ordered (insert_link url t)"
proof (induction t)
  case Null
  then show ?case by simp
next
  case (Link l u r)
  show ?case
  proof (cases "u \<noteq> [] \<and> strcmp url u = 0")
    case True
    with Link.prems show ?thesis by (simp add: Let_def)
  next
    case False
    have ne: "strcmp url u \<noteq> 0"
    proof
      assume z: "strcmp url u = 0"
      then have "url = u" by (rule strcmp_eq_0)
      with False z Link.prems(2) show False by simp
    qed
    show ?thesis
    proof (cases "strcmp url u < 0")
      case True
      with Link ne show ?thesis by (auto simp: Let_def urls_insert_link)
    next
      case False
      with ne have "0 < strcmp url u" by simp
      with Link ne show ?thesis by (auto simp: Let_def urls_insert_link)
    qed
  qed
qed

text \<open>
  Claim C5. Every URL that \<open>__url_acceptable\<close> accepts (it returns 1) has a length below
  256, contains no \<open>#\<close>, contains none of the substrings \<open>javascript:\<close>, \<open>data:image\<close>,
  \<open>.exe\<close>, \<open>.dll\<close>, \<open>cgi-\<close>, does not exist in the local archive, is not cross-domain
  unless \<open>ALLOW_XDOMAIN\<close> is set, and is not in the ordered index of the draining cache.
  The URL is a text (non-empty, without NUL), the draining cache exists and its index is
  ordered.
\<close>

theorem url_acceptable_sound:
  assumes acc: "url_acceptable archived allow_xdomain h fctx dctx url = Some True"
    and u: "NUL \<notin> set url" "url \<noteq> []"
    and idx: "cache dctx" "ordered (root dctx)"
  shows "length url < 256
     \<and> CHR ''#'' \<notin> set url
     \<and> \<not> sublist ''javascript:'' url \<and> \<not> sublist ''data:image'' url
     \<and> \<not> sublist ''.exe'' url \<and> \<not> sublist ''.dll'' url \<and> \<not> sublist ''cgi-'' url
     \<and> \<not> archived url
     \<and> (is_xdomain h url = Some True \<longrightarrow> allow_xdomain)
     \<and> url \<notin> urls (root dctx)"
proof -
  have c: "cstr url = url"
    using u(1) by (auto simp: cstr_def takeWhile_eq_all_conv)
  from acc have len: "length url < 256"
    by (auto simp: url_acceptable_def split: if_splits)
  from acc have arch: "\<not> archived url"
    unfolding url_acceptable_def c by (auto split: if_splits)
  from acc have "memchr url (CHR ''#'') (length url) = None"
    unfolding url_acceptable_def c by (auto split: if_splits)
  then have hash: "CHR ''#'' \<notin> set url"
    by (simp add: memchr_None_iff)
  from acc have "\<not> list_ex (\<lambda>t. strstr url t \<noteq> None) disallowed_tokens"
    unfolding url_acceptable_def c by (auto split: if_splits)
  then have tok: "\<not> sublist ''javascript:'' url \<and> \<not> sublist ''data:image'' url
     \<and> \<not> sublist ''.exe'' url \<and> \<not> sublist ''.dll'' url \<and> \<not> sublist ''cgi-'' url"
    by (simp add: disallowed_tokens_def strstr_None_iff)
  from acc have x: "is_xdomain h url = Some True \<longrightarrow> allow_xdomain"
    unfolding url_acceptable_def c by (auto split: if_splits option.splits)
  from acc idx(1) have "\<not> draining_twin url (root dctx)"
    unfolding url_acceptable_def c by (auto split: if_splits option.splits)
  with draining_twin_complete [OF idx(2) _ u(2)] have twin: "url \<notin> urls (root dctx)"
    by blast
  from len hash tok arch x twin show ?thesis by blast
qed

theorem url_acceptable_sound_witness:
  "url_acceptable empty_archive False example_http example_fctx example_dctx ''http://a.test/d''
     = Some True
   \<and> url_acceptable empty_archive False example_http example_fctx example_dctx ''http://a.test/b''
     = Some False
   \<and> ordered (root example_dctx)
   \<and> ''http://a.test/d'' \<notin> urls (root example_dctx)"
  using url_acceptable_sound [of empty_archive False example_http example_fctx example_dctx
      "''http://a.test/d''"]
  by (simp add: url_acceptable_def cstr_def httplen_def httpslen_def empty_archive_def
      disallowed_tokens_def is_xdomain_def http_parse_host_def example_http_def
      example_dctx_def byte_at_def eval_nat_numeral Let_def)

section \<open>When archive_page rewrites the URLs of a page\<close>

lemma url_parseable_iff:
  "url_parseable url \<longleftrightarrow> (\<forall>f \<in> set no_url_files. \<not> sublist f url)"
  by (simp add: url_parseable_def list_ex_iff strstr_None_iff)

text \<open>
  Claim C3, as the specification states it, fails in both directions: the gate of
  \<open>archive_page\<close> is \<open>__url_parseable\<close>, which does not look for the extensions \<open>.html\<close>,
  \<open>.htm\<close> or a final slash but rejects the URLs that contain one of the nine strings of
  \<open>no_url_files\<close>. A page \<open>page.php\<close> is outside the set of the specification and is
  rewritten; a page \<open>lib.js/index.html\<close> is inside it and is not rewritten.
\<close>

theorem archive_page_rewrite_counterexample:
  "map_option (\<lambda>(rv, c). (rv, calls c, files c ''/home/u/WR_Reaped/a.test/page.php''))
     (archive_page example_env
        (example_crawl ''http://a.test/page.php''
           (''HTTP/1.1 200 OK'' @ [CR, LF, CR, LF] @ ''<a href=x>'') []))
     = Some (0, [Call_replace_with_local_urls], Some (File ''[local]<a href=x>''))
   \<and> \<not> spec_parseable ''http://a.test/page.php''
   \<and> map_option (\<lambda>(rv, c). (rv, calls c, files c ''/home/u/WR_Reaped/a.test/lib.js/index.html''))
     (archive_page example_env
        (example_crawl ''http://a.test/lib.js/index.html''
           (''HTTP/1.1 200 OK'' @ [CR, LF, CR, LF] @ ''<a href=x>'') []))
     = Some (0, [], Some (File ''<a href=x>''))
   \<and> spec_parseable ''http://a.test/lib.js/index.html''"
  by code_simp

text \<open>
  Claim C3, amended. \<open>archive_page\<close> invokes the in-place URL rewriter
  (\<open>replace_with_local_urls\<close>) on a fetched page if and only if the full URL of the page
  contains none of the strings \<open>.jpg\<close>, \<open>.jpeg\<close>, \<open>.png\<close>, \<open>.gif\<close>, \<open>.js\<close>, \<open>.css\<close>,
  \<open>.pdf\<close>, \<open>.svg\<close>, \<open>.ico\<close>; it invokes it once, on the body (the buffer without its
  header), and the buffer of every other page is the body as received.
\<close>

theorem archive_page_rewrites_iff:
  assumes "archive_page ev c = Some (rv, c')"
  shows "calls c' = calls c @
           (if \<forall>f \<in> set no_url_files. \<not> sublist f (http_full_url (http c))
            then [Call_replace_with_local_urls] else [])
     \<and> http_rbuf (http c') =
           (let buf = http_rbuf (http c);
                body = (case HTTP_EOH buf of None \<Rightarrow> buf | Some p \<Rightarrow> buf_collapse buf 0 p)
            in if \<forall>f \<in> set no_url_files. \<not> sublist f (http_full_url (http c))
               then replace_with_local_urls ev ((http c)\<lparr>http_rbuf := body\<rparr>) body
               else body)"
  using assms
  unfolding archive_page_def Let_def url_parseable_iff
  by (auto split: option.splits if_splits)

theorem archive_page_rewrites_iff_witness:
  "map_option (\<lambda>(rv, c). (rv, calls c, http_rbuf (http c)))
     (archive_page example_env
        (example_crawl ''http://a.test/index.html''
           (''HTTP/1.1 200 OK'' @ [CR, LF, CR, LF] @ ''<a href=x>'') []))
     = Some (0, [Call_replace_with_local_urls], ''[local]<a href=x>'')
   \<and> map_option (\<lambda>(rv, c). (rv, calls c, http_rbuf (http c)))
     (archive_page example_env
        (example_crawl ''http://a.test/logo.png''
           (''HTTP/1.1 200 OK'' @ [CR, LF, CR, LF] @ ''PNG'') []))
     = Some (0, [], ''PNG'')"
proof -
  let ?run = "archive_page example_env
        (example_crawl ''http://a.test/index.html''
           (''HTTP/1.1 200 OK'' @ [CR, LF, CR, LF] @ ''<a href=x>'') [])"
  have "case ?run of None \<Rightarrow> False | Some r \<Rightarrow> True"
    by code_simp
  then obtain rv c' where run: "?run = Some (rv, c')"
    by (cases ?run) auto
  have ev: ?thesis
    by code_simp
  from archive_page_rewrites_iff [OF run] ev show ?thesis
    by simp
qed

section \<open>A HEAD status other than 200\<close>














section \<open>The statuses 301, 302 and 303\<close>

text \<open>
  Claim C1, as the specification states it, fails: the \<open>switch\<close> of \<open>reap\<close> has no case
  for 301, 302 or 303, and nothing in the engine reads a \<open>Location\<close> header. Here the
  first of two links is answered by \<open>301 Moved Permanently\<close> with a \<open>Location\<close> on HTTPS:
  \<open>reap\<close> takes the default branch and ends with \<open>-1\<close>. No reconnect has been called, the
  connection is the plain one it was, one request has been written, nothing is archived,
  and the response for the second link is still waiting.
\<close>

theorem reap_redirect_counterexample:
  "map_option (\<lambda>(rv, c). (rv, calls c, length (written c), usingSecure (http c),
                            http_host (http c), http_socket (http c), nr_reaped c, pending c))
     (reap_links example_env True [''http://a.test/old'', ''http://a.test/next'']
        (example_crawl [] []
           [RdData (''HTTP/1.1 301 Moved Permanently'' @ [CR, LF] @
                    ''Location: https://a.test/new'' @ [CR, LF] @
                    ''Content-Length: 0'' @ [CR, LF, CR, LF]),
            RdData (''HTTP/1.1 200 OK'' @ [CR, LF] @ ''Content-Length: 0'' @ [CR, LF, CR, LF])]))
     = Some (- 1, [], 1, False, ''a.test'', Connected (''10.0.0.1'', 80), 0,
             [RdData (''HTTP/1.1 200 OK'' @ [CR, LF] @ ''Content-Length: 0'' @ [CR, LF, CR, LF])])"
  by code_simp

text \<open>
  Claim C1, amended. For every URL whose request yields the status 301, 302 or 303, the
  crawl engine does not follow the \<open>Location\<close> header: the status takes the default branch
  of the \<open>switch\<close>, the state stays as \<open>do_request\<close> left it (no reconnect, no upgrade to
  TLS), and the loop over the links ends with \<open>-1\<close>, which aborts the crawl. (The four
  status values of the engine's own are different from the redirect statuses.)
\<close>

theorem reap_redirect_status:
  assumes redirect: "status_code = HTTP_MOVED_PERMANENTLY \<or> status_code = HTTP_FOUND
                     \<or> status_code = HTTP_SEE_OTHER"
    and own: "status_code \<noteq> HTTP_IS_XDOMAIN ev" "status_code \<noteq> HTTP_ALREADY_EXISTS ev"
      "status_code \<noteq> FL_HTTP_SKIP_LINK ev" "status_code \<noteq> HTTP_OPERATION_TIMEOUT ev"
    and link: "url \<noteq> []" "http_parse_page url = Some (url', Some pg)"
    and request: "do_request ev (link_request_state ev url' pg c) = Some (status_code, c2)"
  shows "reap_switch ev status_code c2 = (Goto_fail, c2)
     \<and> reap_link ev fill url c = Some (Goto_fail, fill, c2)
     \<and> reap_links ev fill (url # rest) c = Some (- 1, c2)"
proof -
  have sw: "reap_switch ev status_code c2 = (Goto_fail, c2)"
    using redirect own
    by (auto simp: reap_switch_def HTTP_MOVED_PERMANENTLY_def HTTP_FOUND_def
        HTTP_SEE_OTHER_def HTTP_OK_def HTTP_GONE_def HTTP_NOT_FOUND_def HTTP_BAD_REQUEST_def
        HTTP_METHOD_NOT_ALLOWED_def HTTP_FORBIDDEN_def HTTP_INTERNAL_ERROR_def
        HTTP_BAD_GATEWAY_def HTTP_SERVICE_UNAV_def HTTP_GATEWAY_TIMEOUT_def)
  from redirect have "\<not> status_code < 0"
    by (auto simp: HTTP_MOVED_PERMANENTLY_def HTTP_FOUND_def HTTP_SEE_OTHER_def)
  then have st: "reap_status ev fill status_code c2 = Some (Goto_fail, fill, c2)"
    by (simp add: reap_status_def sw)
  have ln: "reap_link ev fill url c = Some (Goto_fail, fill, c2)"
    using link request st by (simp add: reap_link_def)
  then have "reap_links ev fill (url # rest) c = Some (- 1, c2)"
    by simp
  with sw ln show ?thesis by blast
qed

theorem reap_redirect_status_witness:
  "map_option (\<lambda>(rv, c). (rv, calls c, usingSecure (http c), http_socket (http c)))
     (reap_links example_env True [''http://a.test/old'', ''http://a.test/next'']
        (example_crawl [] []
           [RdData (''HTTP/1.1 302 Found'' @ [CR, LF] @
                    ''Location: http://b.test/'' @ [CR, LF] @
                    ''Content-Length: 0'' @ [CR, LF, CR, LF])]))
     = Some (- 1, [], False, Connected (''10.0.0.1'', 80))"
proof -
  let ?c = "example_crawl [] []
           [RdData (''HTTP/1.1 302 Found'' @ [CR, LF] @
                    ''Location: http://b.test/'' @ [CR, LF] @
                    ''Content-Length: 0'' @ [CR, LF, CR, LF])]"
  let ?r = "do_request example_env
              (link_request_state example_env ''http://a.test/old'' ''/old'' ?c)"
  have own: "302 \<noteq> HTTP_IS_XDOMAIN example_env" "302 \<noteq> HTTP_ALREADY_EXISTS example_env"
    "302 \<noteq> FL_HTTP_SKIP_LINK example_env" "302 \<noteq> HTTP_OPERATION_TIMEOUT example_env"
    by (simp_all add: example_env_def)
  have link: "''http://a.test/old'' \<noteq> []"
    "http_parse_page ''http://a.test/old'' = Some (''http://a.test/old'', Some ''/old'')"
    by (simp_all add: http_parse_page_def byte_at_def eval_nat_numeral Let_def)
  have "map_option fst ?r = Some 302"
    by code_simp
  then have request: "?r = Some (302, snd (the ?r))"
    by (cases ?r) auto
  have redirect: "(302::int) = HTTP_MOVED_PERMANENTLY \<or> 302 = HTTP_FOUND \<or> 302 = HTTP_SEE_OTHER"
    by (simp add: HTTP_FOUND_def)
  have ev: ?thesis
    by code_simp
  from reap_redirect_status [OF redirect own link request] ev show ?thesis
    by simp
qed

end
